theory Spec2Isabelle
  imports Main "HOL-Library.Word" "HOL-Library.Monad_Syntax"
begin

unbundle bit_operations_syntax

section \<open>String lists (common/strlist.c)\<close>

text \<open>
  A \<^verbatim>\<open>strlist_t\<close> is a pointer to a singly linked list of nodes, each owning its
  payload string \<^verbatim>\<open>d\<close> and a word of \<^verbatim>\<open>flags\<close>.  The lists of this file are never
  shared, so a list pointer is modelled as the HOL list of its nodes (\<open>[]\<close> is \<^verbatim>\<open>NULL\<close>);
  the \<^verbatim>\<open>next\<close> member is the tail.  C strings are \<open>string\<close>s without the
  terminating NUL.
\<close>

record string_list =
  d :: string
  flags :: nat

type_synonym strlist_t = "string_list list"

datatype errno = ENOENT | ENOMEM

text \<open>
  \<^verbatim>\<open>xtrymalloc\<close> may fail.  The environment's answers are a list of booleans, one per
  call, in order; once the list is used up every further allocation succeeds.
\<close>

type_synonym malloc_env = "bool list"

fun xtrymalloc :: "malloc_env \<Rightarrow> bool \<times> malloc_env" where
  "xtrymalloc [] = (True, [])"
| "xtrymalloc (ok # env) = (ok, env)"

text \<open>\<^verbatim>\<open>do_append_to_strlist\<close>: a new node with flags 0 at the end of the list, or
  \<open>None\<close> (the C function returns \<^verbatim>\<open>NULL\<close>) when the allocation fails.\<close>

definition do_append_to_strlist ::
  "malloc_env \<Rightarrow> strlist_t \<Rightarrow> string \<Rightarrow> (strlist_t \<times> malloc_env) option" where
  "do_append_to_strlist env list string =
     (case xtrymalloc env of
        (False, env') \<Rightarrow> None
      | (True, env') \<Rightarrow> Some (list @ [\<lparr>d = string, flags = 0\<rparr>], env'))"

text \<open>Modelled from the spec: \<^verbatim>\<open>trim_spaces\<close> lives in stringhelp.c, which is not among
  the sources; the specification says that a token is trimmed of leading and trailing
  whitespace.  Whitespace is what \<^verbatim>\<open>isspace\<close> accepts in the C locale.\<close>

definition isspace :: "char \<Rightarrow> bool" where
  "isspace c = (c \<in> {CHR '' '', CHR 0x09, CHR 0x0A, CHR 0x0B, CHR 0x0C, CHR 0x0D})"

definition trim_spaces :: "string \<Rightarrow> string" where
  "trim_spaces s = rev (dropWhile isspace (rev (dropWhile isspace s)))"

text \<open>\<^verbatim>\<open>strlist_prev (head, node)\<close> for \<open>node\<close> the last node of \<open>head\<close>: the list up to
  and including the node before it; \<open>[]\<close> is \<^verbatim>\<open>NULL\<close>, returned when the node is the
  first one.\<close>

definition strlist_prev_last :: "strlist_t \<Rightarrow> strlist_t" where
  "strlist_prev_last head = butlast head"

text \<open>
  The body of the \<^verbatim>\<open>do ... while (se && (s = se + 1))\<close> loop of
  \<^verbatim>\<open>tokenize_to_strlist\<close>.  \<^verbatim>\<open>strpbrk (s, delim)\<close> finds the first character of \<open>s\<close> that
  occurs in \<open>delim\<close>; the token is what stands before it, and \<open>se\<close> is the rest from that
  character on (\<open>[]\<close> when \<^verbatim>\<open>strpbrk\<close> returns \<^verbatim>\<open>NULL\<close>).  The result is \<open>None\<close> when an
  allocation failed.
\<close>

function tokenize_loop ::
  "malloc_env \<Rightarrow> string \<Rightarrow> string \<Rightarrow> strlist_t \<Rightarrow> strlist_t option" where
  "tokenize_loop env s delim newlist =
     (let tok = takeWhile (\<lambda>c. c \<notin> set delim) s;
          se = dropWhile (\<lambda>c. c \<notin> set delim) s
      in if tok = [] then
           (if se = [] then Some newlist else tokenize_loop env (tl se) delim newlist)
         else
           (case do_append_to_strlist env newlist tok of
              None \<Rightarrow> None
            | Some (nl, env') \<Rightarrow>
                let item = (last nl)\<lparr>d := trim_spaces (d (last nl))\<rparr>;
                    nl' = butlast nl @ [item];
                    newlist' =
                      (if d item = [] then
                         (if strlist_prev_last nl' \<noteq> [] then strlist_prev_last nl'
                          else [])
                       else nl')
                in if se = [] then Some newlist'
                   else tokenize_loop env' (tl se) delim newlist'))"
  by pat_completeness auto
termination
proof (relation "measure (\<lambda>(env, s, delim, newlist). length s)")
  show "wf (measure (\<lambda>(env, s, delim, newlist). length s))" by simp
next
  fix env :: malloc_env and s delim :: string and newlist :: strlist_t and tok se
  assume "se = dropWhile (\<lambda>c. c \<notin> set delim) s" "se \<noteq> []"
  then have "length (tl se) < length s"
    by (metis length_dropWhile_le length_tl diff_less le_less_trans length_greater_0_conv
        less_one not_le order_refl le_trans)
  then show "((env, tl se, delim, newlist), (env, s, delim, newlist))
      \<in> measure (\<lambda>(env, s, delim, newlist). length s)" by simp
next
  fix env :: malloc_env and s delim :: string and newlist :: strlist_t
    and tok se x2 nl env' item nl' newlist'
  assume "se = dropWhile (\<lambda>c. c \<notin> set delim) s" "se \<noteq> []"
  then have "length (tl se) < length s"
    by (metis length_dropWhile_le length_tl diff_less le_less_trans length_greater_0_conv
        less_one not_le order_refl le_trans)
  then show "((env', tl se, delim, newlist'), (env, s, delim, newlist))
      \<in> measure (\<lambda>(env, s, delim, newlist). length s)" by simp
qed

declare tokenize_loop.simps [simp del]

text \<open>
  \<^verbatim>\<open>tokenize_to_strlist (&list, string, delim)\<close>.  The result is either the errno left
  with a \<^verbatim>\<open>NULL\<close> return (\<open>ENOENT\<close> when no token was found, \<open>ENOMEM\<close> from a failed
  allocation; the caller's list is untouched), or the caller's list after the call
  together with the returned pointer to the first new node.
\<close>

definition tokenize_to_strlist ::
  "malloc_env \<Rightarrow> strlist_t \<Rightarrow> string \<Rightarrow> string \<Rightarrow> errno + (strlist_t \<times> strlist_t)" where
  "tokenize_to_strlist env list string delim =
     (case tokenize_loop env string delim [] of
        None \<Rightarrow> Inl ENOMEM
      | Some newlist \<Rightarrow>
          if newlist = [] then Inl ENOENT
          else Inr (list @ newlist, newlist))"

text \<open>Modelled from the spec: the specification's \<open>join(list, delim)\<close> has no counterpart
  in strlist.c; it is the string formed by the elements with one delimiter character
  between neighbours.\<close>

fun join :: "char \<Rightarrow> string list \<Rightarrow> string" where
  "join c [] = []"
| "join c [x] = x"
| "join c (x # y # ys) = x @ c # join c (y # ys)"

text \<open>
  \<^verbatim>\<open>strlist_copy\<close>.  The C loop keeps a pointer \<^verbatim>\<open>last\<close> to the place the next node is
  to be stored in: first \<^verbatim>\<open>&newlist\<close>, and after each round \<^verbatim>\<open>&sl\<close>, the address of the
  local variable holding the node just made.  \<^verbatim>\<open>*last = sl\<close> thus stores into \<^verbatim>\<open>newlist\<close>
  in the first round and into \<^verbatim>\<open>sl\<close> itself afterwards.  Every new node has
  \<^verbatim>\<open>next = NULL\<close>, which is never written again.
\<close>

datatype last_target = Addr_newlist | Addr_sl

fun strlist_copy_loop :: "strlist_t \<Rightarrow> strlist_t \<Rightarrow> last_target \<Rightarrow> strlist_t" where
  "strlist_copy_loop [] newlist lastp = newlist"
| "strlist_copy_loop (node # list) newlist lastp =
     (let sl = [\<lparr>d = d node, flags = flags node\<rparr>];
          newlist' = (case lastp of Addr_newlist \<Rightarrow> sl | Addr_sl \<Rightarrow> newlist)
      in strlist_copy_loop list newlist' Addr_sl)"

definition strlist_copy :: "strlist_t \<Rightarrow> strlist_t" where
  "strlist_copy list = strlist_copy_loop list [] Addr_newlist"

section \<open>The operating system seen by iobuf.c\<close>

text \<open>
  The file descriptors are the environment of the program.  A descriptor delivers the
  bytes \<open>content\<close> from the offset \<open>pos\<close> on; \<^verbatim>\<open>read\<close> returns at most \<open>chunk\<close> bytes per
  call (a short read; \<open>0\<close> stands for no limit), is interrupted \<open>intr\<close> more times
  (\<^verbatim>\<open>EINTR\<close>) before it does anything, and fails with \<open>rd_errno\<close> once the offset
  \<open>fail_at\<close> is reached.  \<^verbatim>\<open>lseek\<close> to the start succeeds when \<open>seekable\<close>.  \<open>open_ret\<close>
  is the descriptor \<^verbatim>\<open>open\<close> yields for a path (\<open>-1\<close> when it fails); the calls of
  \<^verbatim>\<open>open\<close> and \<^verbatim>\<open>close\<close> are logged, newest first.
\<close>

type_synonym byte = "8 word"

type_synonym gnupg_fd_t = int

definition GNUPG_INVALID_FD :: gnupg_fd_t where
  "GNUPG_INVALID_FD = -1"

record fdesc =
  content :: "byte list"
  pos :: nat
  chunk :: nat
  intr :: nat
  fail_at :: "nat option"
  rd_errno :: int
  seekable :: bool
  written :: "byte list"
  wr_errno :: "int option"

record os =
  fds :: "gnupg_fd_t \<Rightarrow> fdesc"
  open_ret :: "string \<Rightarrow> gnupg_fd_t"
  open_log :: "string list"
  close_ret :: "gnupg_fd_t \<Rightarrow> int"
  close_log :: "gnupg_fd_t list"

datatype sysret = Ret nat | Eintr | Errno int

text \<open>\<^verbatim>\<open>read (f, buf, size)\<close>: the outcome, the bytes stored and the new state.\<close>

definition rd_limit :: "fdesc \<Rightarrow> nat" where
  "rd_limit fd =
     (case fail_at fd of
        None \<Rightarrow> length (content fd)
      | Some e \<Rightarrow> if pos fd < e then min e (length (content fd)) else length (content fd))"

definition rd_count :: "fdesc \<Rightarrow> nat \<Rightarrow> nat" where
  "rd_count fd sz = min (min sz (rd_limit fd - pos fd)) (if chunk fd = 0 then sz else chunk fd)"

definition sys_read :: "os \<Rightarrow> gnupg_fd_t \<Rightarrow> nat \<Rightarrow> sysret \<times> byte list \<times> os" where
  "sys_read w f sz =
     (let fd = fds w f in
      if 0 < intr fd then (Eintr, [], w\<lparr>fds := (fds w)(f := fd\<lparr>intr := intr fd - 1\<rparr>)\<rparr>)
      else if fail_at fd = Some (pos fd) then (Errno (rd_errno fd), [], w)
      else (Ret (rd_count fd sz), take (rd_count fd sz) (drop (pos fd) (content fd)),
            w\<lparr>fds := (fds w)(f := fd\<lparr>pos := pos fd + rd_count fd sz\<rparr>)\<rparr>))"

text \<open>\<^verbatim>\<open>lseek (fp, newpos, SEEK_SET)\<close>: whether it succeeded, and the new state.\<close>

definition sys_lseek :: "os \<Rightarrow> gnupg_fd_t \<Rightarrow> nat \<Rightarrow> bool \<times> os" where
  "sys_lseek w f newpos =
     (if seekable (fds w f) then (True, w\<lparr>fds := (fds w)(f := (fds w f)\<lparr>pos := newpos\<rparr>)\<rparr>)
      else (False, w))"

text \<open>\<^verbatim>\<open>write (f, p, nbytes)\<close> for \<open>nbytes > 0\<close>: it fails with \<open>wr_errno\<close> when that is
  set, and otherwise takes at most \<open>chunk\<close> bytes.\<close>

definition sys_write :: "os \<Rightarrow> gnupg_fd_t \<Rightarrow> byte list \<Rightarrow> sysret \<times> os" where
  "sys_write w f bs =
     (let fd = fds w f in
      case wr_errno fd of
        Some e \<Rightarrow> (Errno e, w)
      | None \<Rightarrow>
          let n = (if chunk fd = 0 then length bs else min (chunk fd) (length bs))
          in (Ret n, w\<lparr>fds := (fds w)(f := fd\<lparr>written := written fd @ take n bs\<rparr>)\<rparr>))"

definition sys_open :: "os \<Rightarrow> string \<Rightarrow> gnupg_fd_t \<times> os" where
  "sys_open w path = (open_ret w path, w\<lparr>open_log := path # open_log w\<rparr>)"

definition sys_close :: "os \<Rightarrow> gnupg_fd_t \<Rightarrow> int \<times> os" where
  "sys_close w f = (close_ret w f, w\<lparr>close_log := f # close_log w\<rparr>)"

section \<open>The close cache (common/iobuf.c)\<close>

text \<open>
  \<^verbatim>\<open>close_cache\<close> is a global singly linked list of slots, newest first.  The model is
  of the POSIX build, where \<^verbatim>\<open>fd_cache_strcmp\<close> is \<^verbatim>\<open>strcmp\<close>: it returns 0 exactly on
  equal names.
\<close>

record close_cache_s =
  fp :: gnupg_fd_t
  fname :: string

type_synonym close_cache_t = "close_cache_s list"

definition fd_cache_strcmp :: "string \<Rightarrow> string \<Rightarrow> bool" where
  "fd_cache_strcmp a b = (a \<noteq> b)"

text \<open>\<^verbatim>\<open>fd_cache_invalidate\<close>: closes every live slot of the name; the result is that of
  the last \<^verbatim>\<open>close\<close> (0 when there was none).\<close>

fun fd_cache_invalidate ::
  "close_cache_t \<Rightarrow> os \<Rightarrow> string \<Rightarrow> int \<Rightarrow> int \<times> close_cache_t \<times> os" where
  "fd_cache_invalidate [] w name rc = (rc, [], w)"
| "fd_cache_invalidate (cc # rest) w name rc =
     (if fp cc \<noteq> GNUPG_INVALID_FD \<and> \<not> fd_cache_strcmp (fname cc) name then
        (case sys_close w (fp cc) of (rc', w') \<Rightarrow>
           (case fd_cache_invalidate rest w' name rc' of (r, rest', w'') \<Rightarrow>
              (r, cc\<lparr>fp := GNUPG_INVALID_FD\<rparr> # rest', w'')))
      else
        (case fd_cache_invalidate rest w name rc of (r, rest', w'') \<Rightarrow> (r, cc # rest', w'')))"

text \<open>\<^verbatim>\<open>direct_open\<close> of the POSIX build.  A mode with \<^verbatim>\<open>+\<close> or \<^verbatim>\<open>w\<close> invalidates the
  cache first and gives up when that fails; the flags of \<^verbatim>\<open>open\<close> are not modelled.\<close>

definition direct_open ::
  "close_cache_t \<Rightarrow> os \<Rightarrow> string \<Rightarrow> string \<Rightarrow> gnupg_fd_t \<times> close_cache_t \<times> os" where
  "direct_open cache w name mode =
     (if CHR ''+'' \<in> set mode \<or> CHR ''w'' \<in> set mode then
        (case fd_cache_invalidate cache w name 0 of (rc, cache', w') \<Rightarrow>
           if rc \<noteq> 0 then (GNUPG_INVALID_FD, cache', w')
           else (case sys_open w' name of (f, w'') \<Rightarrow> (f, cache', w'')))
      else (case sys_open w name of (f, w') \<Rightarrow> (f, cache, w')))"

text \<open>
  The loop of \<^verbatim>\<open>fd_cache_open\<close> over the slots: \<open>None\<close> when no live slot has the
  name, otherwise what the function returns from inside the loop.
\<close>

fun fd_cache_open_scan ::
  "close_cache_t \<Rightarrow> os \<Rightarrow> string \<Rightarrow> (gnupg_fd_t \<times> close_cache_t \<times> os) option" where
  "fd_cache_open_scan [] w name = None"
| "fd_cache_open_scan (cc # rest) w name =
     (if fp cc \<noteq> GNUPG_INVALID_FD \<and> \<not> fd_cache_strcmp (fname cc) name then
        (let f = fp cc;
             cc' = cc\<lparr>fp := GNUPG_INVALID_FD\<rparr>
         in case sys_lseek w f 0 of
              (False, w') \<Rightarrow> Some (GNUPG_INVALID_FD, cc' # rest, w')
            | (True, w') \<Rightarrow> Some (f, cc' # rest, w'))
      else
        (case fd_cache_open_scan rest w name of
           None \<Rightarrow> None
         | Some (f, rest', w') \<Rightarrow> Some (f, cc # rest', w')))"

definition fd_cache_open ::
  "close_cache_t \<Rightarrow> os \<Rightarrow> string \<Rightarrow> string \<Rightarrow> gnupg_fd_t \<times> close_cache_t \<times> os" where
  "fd_cache_open cache w name mode =
     (case fd_cache_open_scan cache w name of
        Some r \<Rightarrow> r
      | None \<Rightarrow> direct_open cache w name mode)"

text \<open>\<^verbatim>\<open>fd_cache_close\<close>: an unnamed descriptor is closed; a named one goes into the
  first free slot of its name, or into a new slot at the front.\<close>

fun fd_cache_close_scan :: "close_cache_t \<Rightarrow> string \<Rightarrow> gnupg_fd_t \<Rightarrow> close_cache_t option" where
  "fd_cache_close_scan [] name f = None"
| "fd_cache_close_scan (cc # rest) name f =
     (if fp cc = GNUPG_INVALID_FD \<and> \<not> fd_cache_strcmp (fname cc) name
      then Some (cc\<lparr>fp := f\<rparr> # rest)
      else map_option ((#) cc) (fd_cache_close_scan rest name f))"

definition fd_cache_close ::
  "close_cache_t \<Rightarrow> os \<Rightarrow> string option \<Rightarrow> gnupg_fd_t \<Rightarrow> close_cache_t \<times> os" where
  "fd_cache_close cache w name f =
     (case name of
        None \<Rightarrow> (cache, snd (sys_close w f))
      | Some nm \<Rightarrow>
          if nm = [] then (cache, snd (sys_close w f))
          else (case fd_cache_close_scan cache nm f of
                  Some cache' \<Rightarrow> (cache', w)
                | None \<Rightarrow> (\<lparr>fp = f, fname = nm\<rparr> # cache, w)))"


section \<open>Filters and pipeline nodes (common/iobuf.c)\<close>

text \<open>
  The header iobuf.h is not among the sources; the members of \<^verbatim>\<open>struct iobuf_struct\<close>,
  the values of \<^verbatim>\<open>enum iobuf_use\<close> and the control verbs are taken from their uses in
  iobuf.c.  Sizes and counters are natural numbers: the model is of buffers and
  requests below \<open>2^31\<close> bytes, where no C integer wraps.  A call that ends in
  \<^verbatim>\<open>log_bug\<close>, \<^verbatim>\<open>BUG\<close>, a failed \<^verbatim>\<open>log_assert\<close> or a \<^verbatim>\<open>NULL\<close> dereference ends the
  process; such a call has the result \<open>None\<close>.
\<close>

definition DEFAULT_IOBUF_BUFFER_SIZE :: nat where
  "DEFAULT_IOBUF_BUFFER_SIZE = 64 * 1024"

definition MAX_NESTING_FILTER :: nat where
  "MAX_NESTING_FILTER = 64"

definition IOBUF_ZEROCOPY_THRESHOLD_SIZE :: nat where
  "IOBUF_ZEROCOPY_THRESHOLD_SIZE = 1024"

text \<open>The static variable \<^verbatim>\<open>iobuf_buffer_size\<close> with its initial value;
  \<^verbatim>\<open>iobuf_set_buffer_size\<close>, which may change it once, is not modelled.\<close>

definition iobuf_buffer_size :: nat where
  "iobuf_buffer_size = DEFAULT_IOBUF_BUFFER_SIZE"

definition OP_MIN_PARTIAL_CHUNK :: nat where
  "OP_MIN_PARTIAL_CHUNK = 512"

definition OP_MIN_PARTIAL_CHUNK_2POW :: nat where
  "OP_MIN_PARTIAL_CHUNK_2POW = 9"

text \<open>Modelled from the spec: the error codes come from libgpg-error, which is not
  among the sources.  The callback contract of the specification has 0 for success,
  \<open>-1\<close> for EOF and a positive code for an error; the numbers are those of
  libgpg-error, and an errno keeps its (positive) number.\<close>

definition GPG_ERR_BAD_DATA :: int where
  "GPG_ERR_BAD_DATA = 89"

definition GPG_ERR_INTERNAL :: int where
  "GPG_ERR_INTERNAL = 63"

definition gpg_error_from_errno :: "int \<Rightarrow> int" where
  "gpg_error_from_errno e = (if 0 < e then e else 16382)"

datatype iobuf_use = IOBUF_INPUT | IOBUF_INPUT_TEMP | IOBUF_OUTPUT | IOBUF_OUTPUT_TEMP

datatype control =
  IOBUFCTRL_INIT | IOBUFCTRL_FREE | IOBUFCTRL_UNDERFLOW | IOBUFCTRL_FLUSH
  | IOBUFCTRL_DESC | IOBUFCTRL_CANCEL | IOBUFCTRL_PEEK

text \<open>\<^verbatim>\<open>file_filter_ctx_t\<close>.  \<open>peeked\<close> holds the \<^verbatim>\<open>npeeked\<close> valid bytes of the
  read-ahead buffer, so \<^verbatim>\<open>npeeked\<close> is its length.\<close>

record file_filter_ctx_t =
  ff_fp :: gnupg_fd_t
  keep_open :: bool
  no_cache :: bool
  eof_seen :: bool
  delayed_rc :: int
  print_only_name :: bool
  peeked :: "byte list"
  upeeked :: nat
  ff_fname :: string

text \<open>\<^verbatim>\<open>block_filter_ctx_t\<close>.  \<open>buffer\<close> holds the \<^verbatim>\<open>buflen\<close> used bytes of the buffer, so
  \<^verbatim>\<open>buflen\<close> is its length.  \<^verbatim>\<open>size\<close> is called \<open>bf_size\<close> and \<^verbatim>\<open>use\<close> \<open>bf_use\<close>.\<close>

record block_filter_ctx_t =
  bf_use :: iobuf_use
  bf_size :: nat
  bf_count :: nat
  partial :: nat
  buffer :: "byte list"
  first_c :: nat
  bf_eof :: bool

text \<open>A filter is a function pointer with its opaque context.  The functions of
  iobuf.c are named; any other filter function is \<open>User_filter\<close> with a number,
  and its context is a value the model does not look into.\<close>

datatype filter_fn = File_filter | Block_filter | User_filter nat

datatype filter_ctx =
  File_ctx file_filter_ctx_t | Block_ctx block_filter_ctx_t | User_ctx "nat list"

text \<open>
  \<^verbatim>\<open>struct iobuf_struct\<close>.  \<open>d_buf\<close> holds the \<^verbatim>\<open>d.len\<close> valid bytes of the internal
  buffer, so \<^verbatim>\<open>d.len\<close> is its length; \<open>d_size\<close> is the allocated size.  \<open>e_d_buf\<close> is the
  external buffer: \<open>None\<close> for \<^verbatim>\<open>NULL\<close>, otherwise the bytes that are read or have been
  stored through the pointer.  \<open>addr\<close> is not a member: it is the address of the node,
  which \<^verbatim>\<open>memcpy\<close> between nodes leaves in place.  The member \<^verbatim>\<open>chain\<close> is not a field
  either: a pipeline is the list of its nodes, head first, and the chain of a node is
  the rest of the list (\<open>[]\<close> for \<^verbatim>\<open>NULL\<close>).
\<close>

record iobuf =
  addr :: nat
  use :: iobuf_use
  d_buf :: "byte list"
  d_start :: nat
  d_size :: nat
  e_d_buf :: "byte list option"
  e_d_len :: nat
  e_d_used :: nat
  e_d_preferred :: bool
  nofast :: bool
  filter_eof :: bool
  error :: int
  nlimit :: nat
  nbytes :: nat
  ntotal :: nat
  filter :: "filter_fn option"
  filter_ov :: "filter_ctx option"
  filter_ov_owner :: bool
  no :: nat
  subno :: nat
  real_fname :: "string option"

abbreviation d_len :: "iobuf \<Rightarrow> nat" where
  "d_len a \<equiv> length (d_buf a)"

type_synonym pipeline = "iobuf list"

text \<open>The state outside the pipeline: the operating system, the close cache, the
  next address \<^verbatim>\<open>malloc\<close> hands out for a node, and the static counter \<^verbatim>\<open>number\<close> of
  \<^verbatim>\<open>iobuf_alloc\<close>.\<close>

record world =
  sys :: os
  close_cache :: close_cache_t
  brk :: nat
  number :: nat

text \<open>
  The result of a filter call \<^verbatim>\<open>f (opaque, control, chain, buf, &len)\<close>: the return
  code, the bytes stored into \<^verbatim>\<open>buf\<close>, the value left in \<^verbatim>\<open>len\<close>, and the context, the
  chain and the world after the call.
\<close>

type_synonym 'c cb_result = "int \<times> byte list \<times> nat \<times> 'c \<times> pipeline \<times> world"

type_synonym filter_impl =
  "filter_fn \<Rightarrow> filter_ctx option \<Rightarrow> control \<Rightarrow> pipeline \<Rightarrow> world \<Rightarrow> byte list \<Rightarrow> nat
     \<Rightarrow> filter_ctx option cb_result option"

subsection \<open>The file filter\<close>

text \<open>The \<^verbatim>\<open>read_more\<close> loop of \<^verbatim>\<open>file_filter\<close> (POSIX build): \<^verbatim>\<open>read\<close> is repeated on
  \<^verbatim>\<open>EINTR\<close> and until \<open>sz\<close> bytes are there.  The result is the last outcome of \<^verbatim>\<open>read\<close>
  and the bytes collected.\<close>

lemma rd_count_le: "rd_count fd sz \<le> length (content fd) - pos fd"
proof -
  have "rd_limit fd \<le> length (content fd)"
    by (simp add: rd_limit_def split: option.splits)
  then have "rd_limit fd - pos fd \<le> length (content fd) - pos fd" by arith
  moreover have "rd_count fd sz \<le> rd_limit fd - pos fd"
    unfolding rd_count_def by (rule order_trans [OF min.cobounded1 min.cobounded2])
  ultimately show ?thesis by (rule order_trans [rotated])
qed

lemma sys_read_Ret:
  assumes "sys_read w f k = (Ret n, bs, w')"
  shows "length bs = n \<and> intr (fds w' f) = intr (fds w f)"
proof -
  from assms have n: "n = rd_count (fds w f) k"
    and bs: "bs = take n (drop (pos (fds w f)) (content (fds w f)))"
    and w': "intr (fds w' f) = intr (fds w f)"
    by (auto simp: sys_read_def Let_def split: if_splits)
  from n have "n \<le> length (content (fds w f)) - pos (fds w f)" by (simp add: rd_count_le)
  with bs w' show ?thesis by simp
qed

lemma sys_read_Eintr:
  "sys_read w f k = (Eintr, bs, w') \<Longrightarrow> intr (fds w' f) < intr (fds w f)"
  by (auto simp: sys_read_def Let_def split: if_splits)

function read_more :: "os \<Rightarrow> gnupg_fd_t \<Rightarrow> nat \<Rightarrow> byte list \<Rightarrow> sysret \<times> byte list \<times> os" where
  "read_more w f sz got =
     (case sys_read w f (sz - length got) of
        (Eintr, bs, w') \<Rightarrow> read_more w' f sz got
      | (Ret n, bs, w') \<Rightarrow>
          if 0 < n then
            (if length (got @ bs) < sz then read_more w' f sz (got @ bs)
             else (Ret n, got @ bs, w'))
          else (Ret n, got, w')
      | (Errno e, bs, w') \<Rightarrow> (Errno e, got, w'))"
  by pat_completeness auto
termination
proof (relation "measure (\<lambda>(w, f, sz, got). (sz - length got) + intr (fds w f))")
  show "wf (measure (\<lambda>(w, f, sz, got). (sz - length got) + intr (fds w f)))" by simp
next
  fix w f sz got x y bs w' n
  assume "(x, y) = sys_read w f (sz - length got)" "(bs, w') = y" "x = Ret n"
    and "0 < n" "length (got @ bs) < sz"
  then have "sys_read w f (sz - length got) = (Ret n, bs, w')" by simp
  then have "length bs = n \<and> intr (fds w' f) = intr (fds w f)"
    by (rule sys_read_Ret)
  with \<open>0 < n\<close> \<open>length (got @ bs) < sz\<close>
  show "((w', f, sz, got @ bs), (w, f, sz, got))
      \<in> measure (\<lambda>(w, f, sz, got). (sz - length got) + intr (fds w f))" by simp
next
  fix w f sz got x y bs w'
  assume "(x, y) = sys_read w f (sz - length got)" "(bs, w') = y" "x = Eintr"
  then have "sys_read w f (sz - length got) = (Eintr, bs, w')" by simp
  then have "intr (fds w' f) < intr (fds w f)"
    by (rule sys_read_Eintr)
  then show "((w', f, sz, got), (w, f, sz, got))
      \<in> measure (\<lambda>(w, f, sz, got). (sz - length got) + intr (fds w f))" by simp
qed

declare read_more.simps [simp del]


text \<open>The write loop of \<^verbatim>\<open>file_filter\<close> (POSIX build): \<^verbatim>\<open>write\<close> is repeated until
  all bytes are out or it fails.  The result is the last outcome and the number of
  bytes written.\<close>

function write_all :: "os \<Rightarrow> gnupg_fd_t \<Rightarrow> byte list \<Rightarrow> nat \<Rightarrow> sysret \<times> nat \<times> os" where
  "write_all w f bs done =
     (case sys_write w f bs of
        (Ret n, w') \<Rightarrow>
          if 0 < n \<and> n < length bs then write_all w' f (drop n bs) (done + n)
          else (Ret n, done + min n (length bs), w')
      | (r, w') \<Rightarrow> (r, done, w'))"
  by pat_completeness auto
termination
  by (relation "measure (\<lambda>(w, f, bs, done). length bs)") auto

declare write_all.simps [simp del]

definition file_filter ::
  "file_filter_ctx_t \<Rightarrow> control \<Rightarrow> pipeline \<Rightarrow> world \<Rightarrow> byte list \<Rightarrow> nat
     \<Rightarrow> file_filter_ctx_t cb_result option"
  where
  "file_filter a ctl chain w buf sz =
     (case ctl of
        IOBUFCTRL_UNDERFLOW \<Rightarrow>
          if sz = 0 then None
          else if upeeked a < length (peeked a) then
            (let nbytes = min (length (peeked a) - upeeked a) sz
             in Some (0, take nbytes (drop (upeeked a) (peeked a)), nbytes,
                      a\<lparr>upeeked := upeeked a + nbytes\<rparr>, chain, w))
          else if eof_seen a then Some (-1, [], 0, a, chain, w)
          else if delayed_rc a \<noteq> 0 then
            (let rc = delayed_rc a;
                 a1 = a\<lparr>delayed_rc := 0\<rparr>;
                 a2 = (if rc = -1 then a1\<lparr>eof_seen := True\<rparr> else a1)
             in Some (rc, [], 0, a2, chain, w))
          else
            (case read_more (sys w) (ff_fp a) sz [] of
               (Ret n, got, s') \<Rightarrow>
                 if 0 < n then Some (0, got, length got, a, chain, w\<lparr>sys := s'\<rparr>)
                 else if got \<noteq> [] then
                   Some (0, got, length got, a\<lparr>delayed_rc := -1\<rparr>, chain,
                         w\<lparr>sys := s'\<rparr>)
                 else Some (-1, [], 0, a\<lparr>eof_seen := True\<rparr>, chain, w\<lparr>sys := s'\<rparr>)
             | (Errno e, got, s') \<Rightarrow>
                 if got \<noteq> [] then
                   Some (0, got, length got,
                         a\<lparr>delayed_rc := gpg_error_from_errno e\<rparr>, chain,
                         w\<lparr>sys := s'\<rparr>)
                 else Some (gpg_error_from_errno e, [], 0, a, chain, w\<lparr>sys := s'\<rparr>)
             | (Eintr, got, s') \<Rightarrow> None)
      | IOBUFCTRL_FLUSH \<Rightarrow>
          if sz = 0 then Some (0, [], 0, a, chain, w)
          else
            (case write_all (sys w) (ff_fp a) (take sz buf) 0 of
               (Errno e, done, s') \<Rightarrow>
                 Some (gpg_error_from_errno e, [], done, a, chain, w\<lparr>sys := s'\<rparr>)
             | (r, done, s') \<Rightarrow> Some (0, [], done, a, chain, w\<lparr>sys := s'\<rparr>))
      | IOBUFCTRL_INIT \<Rightarrow>
          Some (0, [], sz,
                a\<lparr>eof_seen := False, delayed_rc := 0, keep_open := False,
                            no_cache := False, peeked := [], upeeked := 0\<rparr>, chain, w)
      | IOBUFCTRL_PEEK \<Rightarrow>
          (case read_more (sys w) (ff_fp a) 32 (peeked a) of
             (r, got, s') \<Rightarrow>
               let a' = (case r of
                           Ret n \<Rightarrow>
                             if 0 < n then a\<lparr>peeked := got\<rparr>
                             else if got \<noteq> [] then a\<lparr>peeked := got, delayed_rc := -1\<rparr>
                             else a\<lparr>peeked := got, eof_seen := True\<rparr>
                         | Errno e \<Rightarrow>
                             if got \<noteq> [] then a\<lparr>peeked := got, delayed_rc := gpg_error_from_errno e\<rparr>
                             else a\<lparr>peeked := got\<rparr>
                         | Eintr \<Rightarrow> a);
                   n = min (length (peeked a')) sz
               in Some (0, take n (peeked a'), n, a', chain, w\<lparr>sys := s'\<rparr>))
      | IOBUFCTRL_FREE \<Rightarrow>
          if ff_fp a \<noteq> 0 \<and> ff_fp a \<noteq> 1 \<and> \<not> keep_open a then
            (case fd_cache_close (close_cache w) (sys w)
                    (if no_cache a then None else Some (ff_fname a)) (ff_fp a) of
               (cache', s') \<Rightarrow>
                 Some (0, [], sz, a, chain, w\<lparr>sys := s', close_cache := cache'\<rparr>))
          else Some (0, [], sz, a, chain, w)
      | IOBUFCTRL_DESC \<Rightarrow> Some (0, [], sz, a, chain, w)
      | IOBUFCTRL_CANCEL \<Rightarrow> Some (0, [], sz, a, chain, w))"


subsection \<open>Flushing and writing\<close>

text \<open>The two ways a loop body ends: the function returns, or the loop goes round
  again with a new state.\<close>

datatype ('r, 's) step = Done 'r | Again 's

text \<open>\<^verbatim>\<open>a->filter (a->filter_ov, control, a->chain, buf, &len)\<close>; calling through a
  \<^verbatim>\<open>NULL\<close> function pointer ends the process.  \<open>F\<close> gives the filter functions their
  meaning.\<close>

definition call_filter ::
  "filter_impl \<Rightarrow> iobuf \<Rightarrow> control \<Rightarrow> pipeline \<Rightarrow> world \<Rightarrow> byte list \<Rightarrow> nat
     \<Rightarrow> filter_ctx option cb_result option" where
  "call_filter F a ctl chain w buf len =
     (case filter a of
        None \<Rightarrow> None
      | Some f \<Rightarrow> F f (filter_ov a) ctl chain w buf len)"

type_synonym io_result = "int \<times> iobuf \<times> pipeline \<times> world"

definition filter_flush :: "filter_impl \<Rightarrow> iobuf \<Rightarrow> pipeline \<Rightarrow> world \<Rightarrow> io_result option" where
  "filter_flush F a0 chain w =
     (let a = a0\<lparr>e_d_used := 0\<rparr> in
      if use a = IOBUF_OUTPUT_TEMP then
        Some (0, a\<lparr>d_size := d_size a + iobuf_buffer_size\<rparr>, chain, w)
      else if use a \<noteq> IOBUF_OUTPUT then None
      else if filter a = None then None
      else
        let external_used = (d_len a = 0 \<and> e_d_buf a \<noteq> None \<and> 0 < e_d_len a);
            src_buf = (if external_used then the (e_d_buf a) else d_buf a);
            src_len = (if external_used then e_d_len a else d_len a)
        in case call_filter F a IOBUFCTRL_FLUSH chain w src_buf src_len of
             None \<Rightarrow> None
           | Some (rc, out, len, ov, chain', w') \<Rightarrow>
               let a1 = a\<lparr>filter_ov := ov\<rparr>;
                   short = (rc = 0 \<and> len \<noteq> src_len);
                   a2 = (if \<not> short \<and> rc \<noteq> 0 then a1\<lparr>error := rc\<rparr> else a1);
                   a3 = a2\<lparr>d_buf := []\<rparr>;
                   a4 = (if external_used then a3\<lparr>e_d_used := len\<rparr> else a3)
               in Some (if short then GPG_ERR_INTERNAL else rc, a4, chain', w'))"

definition iobuf_writebyte ::
  "filter_impl \<Rightarrow> iobuf \<Rightarrow> pipeline \<Rightarrow> world \<Rightarrow> nat \<Rightarrow> io_result option" where
  "iobuf_writebyte F a chain w c =
     (if use a = IOBUF_INPUT \<or> use a = IOBUF_INPUT_TEMP then None
      else
        case (if d_len a = d_size a then filter_flush F a chain w else Some (0, a, chain, w)) of
          None \<Rightarrow> None
        | Some (rc, a1, chain1, w1) \<Rightarrow>
            if rc \<noteq> 0 then Some (rc, a1, chain1, w1)
            else if \<not> d_len a1 < d_size a1 then None
            else Some (0, a1\<lparr>d_buf := d_buf a1 @ [word_of_nat c]\<rparr>, chain1, w1))"

text \<open>
  The body of the \<^verbatim>\<open>do ... while (buflen)\<close> loop of \<^verbatim>\<open>iobuf_write\<close>, in its three
  blocks; \<open>buf\<close> is the rest of the caller's bytes and \<^verbatim>\<open>buflen\<close> its length.
  \<open>wr_extern\<close> sets up the external buffer, \<open>wr_intern\<close> copies into the internal
  buffer and gives the node and the bytes still to write.
\<close>

definition wr_extern :: "iobuf \<Rightarrow> byte list \<Rightarrow> iobuf" where
  "wr_extern a buf =
     (if use a \<noteq> IOBUF_OUTPUT_TEMP \<and> d_len a = 0
         \<and> IOBUF_ZEROCOPY_THRESHOLD_SIZE \<le> length buf
      then
        let elen = length buf div IOBUF_ZEROCOPY_THRESHOLD_SIZE * IOBUF_ZEROCOPY_THRESHOLD_SIZE
        in a\<lparr>e_d_buf := (if elen = 0 then None else Some (take elen buf)), e_d_len := elen\<rparr>
      else a)"

definition wr_size :: "iobuf \<Rightarrow> nat \<Rightarrow> nat" where
  "wr_size a buflen =
     (let sz = (if e_d_preferred a \<and> d_len a < IOBUF_ZEROCOPY_THRESHOLD_SIZE
                then IOBUF_ZEROCOPY_THRESHOLD_SIZE - d_len a
                else d_size a - d_len a)
      in if buflen < sz then buflen else sz)"

definition wr_intern :: "iobuf \<Rightarrow> byte list \<Rightarrow> iobuf \<times> byte list" where
  "wr_intern a buf =
     (if e_d_buf a = None \<and> buf \<noteq> [] \<and> d_len a < d_size a then
        (a\<lparr>d_buf := d_buf a @ take (wr_size a (length buf)) buf\<rparr>,
         drop (wr_size a (length buf)) buf)
      else (a, buf))"

text \<open>No node has an internal buffer of size 0 (\<^verbatim>\<open>iobuf_alloc\<close> ends the process when
  asked for one); on such a node the body has the result \<open>None\<close>.\<close>

definition iobuf_write_body ::
  "filter_impl \<Rightarrow> iobuf \<Rightarrow> pipeline \<Rightarrow> world \<Rightarrow> byte list
     \<Rightarrow> (io_result, iobuf \<times> pipeline \<times> world \<times> byte list) step option" where
  "iobuf_write_body F a chain w buf =
     (if d_size a = 0 then None
      else
        case wr_intern (wr_extern a buf) buf of
          (a2, buf2) \<Rightarrow>
            if buf2 \<noteq> [] then
              (case filter_flush F a2 chain w of
                 None \<Rightarrow> None
               | Some (rc, a3, chain3, w3) \<Rightarrow>
                   if rc \<noteq> 0
                   then Some (Done (rc, a3\<lparr>e_d_buf := None, e_d_len := 0\<rparr>, chain3, w3))
                   else
                     let buf3 = (if e_d_buf a3 \<noteq> None \<and> 0 < e_d_used a3
                                 then drop (e_d_used a3) buf2 else buf2);
                         a4 = a3\<lparr>e_d_buf := None, e_d_len := 0\<rparr>
                     in if buf3 = [] then Some (Done (0, a4, chain3, w3))
                        else Some (Again (a4, chain3, w3, buf3)))
            else Some (Done (0, a2\<lparr>e_d_buf := None, e_d_len := 0\<rparr>, chain, w)))"

text \<open>How many rounds a node has to wait before a round moves bytes: none when the
  round can take bytes, otherwise until a flush has made room.\<close>

definition wr_ready :: "iobuf \<Rightarrow> nat \<Rightarrow> bool" where
  "wr_ready a buflen =
     ((use a \<noteq> IOBUF_OUTPUT_TEMP \<and> d_len a = 0 \<and> IOBUF_ZEROCOPY_THRESHOLD_SIZE \<le> buflen)
      \<or> (e_d_buf a = None \<and> d_len a < d_size a))"

definition wr_wait :: "iobuf \<Rightarrow> nat \<Rightarrow> nat" where
  "wr_wait a buflen = (if wr_ready a buflen then 0 else 1 + (d_len a - d_size a))"

lemma filter_flush_external:
  assumes "filter_flush F a chain w = Some (0, a', chain', w')"
    and "d_len a = 0" "e_d_buf a \<noteq> None" "0 < e_d_len a" "use a \<noteq> IOBUF_OUTPUT_TEMP"
  shows "e_d_buf a' = e_d_buf a \<and> e_d_used a' = e_d_len a"
  using assms unfolding filter_flush_def Let_def
  by (auto split: if_splits option.splits prod.splits simp: GPG_ERR_INTERNAL_def)

lemma filter_flush_shape:
  assumes "filter_flush F a chain w = Some (rc, a', chain', w')"
  shows "(use a = IOBUF_OUTPUT_TEMP \<and> d_buf a' = d_buf a
            \<and> d_size a' = d_size a + iobuf_buffer_size \<and> e_d_used a' = 0
            \<and> e_d_buf a' = e_d_buf a)
         \<or> (use a = IOBUF_OUTPUT \<and> d_buf a' = [] \<and> d_size a' = d_size a)"
  using assms unfolding filter_flush_def Let_def
  by (auto split: if_splits option.splits prod.splits)

lemma filter_flush_use:
  assumes "filter_flush F a chain w = Some (rc, a', chain', w')"
  shows "use a' = use a"
  using assms unfolding filter_flush_def Let_def
  by (auto split: if_splits option.splits prod.splits)

lemma wr_size_pos: "d_len a < d_size a \<Longrightarrow> 0 < buflen \<Longrightarrow> 0 < wr_size a buflen"
  by (simp add: wr_size_def Let_def)

lemma wr_intern_length: "wr_intern a buf = (a2, buf2) \<Longrightarrow> length buf2 \<le> length buf"
  by (auto simp: wr_intern_def split: if_splits)

lemma wr_intern_copy:
  assumes "wr_intern a buf = (a2, buf2)" "e_d_buf a = None" "buf \<noteq> []" "d_len a < d_size a"
  shows "length buf2 < length buf"
proof -
  have "0 < wr_size a (length buf)" using assms(3,4) by (simp add: wr_size_pos)
  moreover have "buf2 = drop (wr_size a (length buf)) buf"
    using assms by (simp add: wr_intern_def)
  ultimately show ?thesis using assms(3) by simp
qed

lemma wr_extern_zc:
  assumes "use a \<noteq> IOBUF_OUTPUT_TEMP" "d_len a = 0" "IOBUF_ZEROCOPY_THRESHOLD_SIZE \<le> length buf"
  shows "\<exists>elen. 0 < elen \<and> elen \<le> length buf
           \<and> wr_extern a buf = a\<lparr>e_d_buf := Some (take elen buf), e_d_len := elen\<rparr>"
proof -
  define elen where
    "elen = length buf div IOBUF_ZEROCOPY_THRESHOLD_SIZE * IOBUF_ZEROCOPY_THRESHOLD_SIZE"
  have "0 < elen" using assms(3)
    by (simp add: elen_def IOBUF_ZEROCOPY_THRESHOLD_SIZE_def)
  moreover have "elen \<le> length buf" by (simp add: elen_def)
  moreover have "wr_extern a buf = a\<lparr>e_d_buf := Some (take elen buf), e_d_len := elen\<rparr>"
    using assms \<open>0 < elen\<close> by (simp add: wr_extern_def Let_def elen_def [symmetric])
  ultimately show ?thesis by blast
qed

lemma wr_extern_skip:
  assumes "\<not> (use a \<noteq> IOBUF_OUTPUT_TEMP \<and> d_len a = 0
             \<and> IOBUF_ZEROCOPY_THRESHOLD_SIZE \<le> length buf)"
  shows "wr_extern a buf = a"
  using assms by (auto simp: wr_extern_def)

text \<open>What a round that goes on has done, in terms of the node handed to the flush.\<close>

lemma iobuf_write_body_AgainE:
  assumes "iobuf_write_body F a chain w buf = Some (Again (a', chain', w', buf'))"
  obtains a2 buf2 a3 where "wr_intern (wr_extern a buf) buf = (a2, buf2)"
    and "filter_flush F a2 chain w = Some (0, a3, chain', w')"
    and "a' = a3\<lparr>e_d_buf := None, e_d_len := 0\<rparr>"
    and "buf' = (if e_d_buf a3 \<noteq> None \<and> 0 < e_d_used a3
                 then drop (e_d_used a3) buf2 else buf2)"
    and "buf' \<noteq> []" and "0 < d_size a"
proof -
  obtain a2 buf2 where i: "wr_intern (wr_extern a buf) buf = (a2, buf2)" by force
  from assms i have pos: "0 < d_size a" and ne2: "buf2 \<noteq> []"
    unfolding iobuf_write_body_def by (auto split: if_splits)
  from assms i pos ne2 obtain rc a3 chain3 w3 where
    fl: "filter_flush F a2 chain w = Some (rc, a3, chain3, w3)"
    unfolding iobuf_write_body_def by (auto split: option.splits)
  from assms i pos ne2 fl have rc: "rc = 0"
    unfolding iobuf_write_body_def by (auto split: if_splits)
  from assms i pos ne2 fl rc have
    "chain3 = chain'" "w3 = w'" "a' = a3\<lparr>e_d_buf := None, e_d_len := 0\<rparr>"
    "buf' = (if e_d_buf a3 \<noteq> None \<and> 0 < e_d_used a3
                 then drop (e_d_used a3) buf2 else buf2)" "buf' \<noteq> []"
    unfolding iobuf_write_body_def Let_def by (auto split: if_splits)
  with i fl rc pos show ?thesis using that by blast
qed

lemma iobuf_write_body_Again:
  assumes "iobuf_write_body F a chain w buf = Some (Again (a', chain', w', buf'))"
  shows "length buf' < length buf
         \<or> (length buf' = length buf \<and> wr_wait a' (length buf') < wr_wait a (length buf))"
proof -
  from assms obtain a2 buf2 a3 where
    i: "wr_intern (wr_extern a buf) buf = (a2, buf2)"
    and fl: "filter_flush F a2 chain w = Some (0, a3, chain', w')"
    and a': "a' = a3\<lparr>e_d_buf := None, e_d_len := 0\<rparr>"
    and b': "buf' = (if e_d_buf a3 \<noteq> None \<and> 0 < e_d_used a3
                 then drop (e_d_used a3) buf2 else buf2)"
    and ne: "buf' \<noteq> []" and pos: "0 < d_size a"
    by (rule iobuf_write_body_AgainE)
  have le2: "length buf2 \<le> length buf" using i by (rule wr_intern_length)
  have le3: "length buf' \<le> length buf2" using b' by simp
  have bne: "buf \<noteq> []" using le2 le3 ne by auto
  show ?thesis
  proof (cases "use a \<noteq> IOBUF_OUTPUT_TEMP \<and> d_len a = 0
                 \<and> IOBUF_ZEROCOPY_THRESHOLD_SIZE \<le> length buf")
    case zc: True
    then obtain elen where e: "0 < elen"
      and x: "wr_extern a buf = a\<lparr>e_d_buf := Some (take elen buf), e_d_len := elen\<rparr>"
      using wr_extern_zc [of a buf] by blast
    have a2: "a2 = wr_extern a buf" and b2: "buf2 = buf"
      using i x by (auto simp: wr_intern_def)
    have "e_d_buf a3 = e_d_buf a2 \<and> e_d_used a3 = e_d_len a2"
      using zc e by (intro filter_flush_external [OF fl]) (simp_all add: a2 x)
    then have "buf' = drop elen buf" using b' e by (simp add: a2 x b2)
    then show ?thesis using e bne by simp
  next
    case nzc: False
    then have x: "wr_extern a buf = a" by (rule wr_extern_skip)
    show ?thesis
    proof (cases "e_d_buf a = None \<and> d_len a < d_size a")
      case True
      then have "length buf2 < length buf"
        using i x bne by (intro wr_intern_copy [of a buf a2 buf2]) simp_all
      with le3 show ?thesis by simp
    next
      case noroom: False
      then have a2: "a2 = a" and b2: "buf2 = buf"
        using i x by (auto simp: wr_intern_def)
      show ?thesis
      proof (cases "e_d_buf a3 \<noteq> None \<and> 0 < e_d_used a3")
        case True
        then have "buf' = drop (e_d_used a3) buf" and "0 < e_d_used a3"
          using b' b2 by simp_all
        then show ?thesis using bne by simp
      next
        case False
        with b' b2 have same: "buf' = buf" by (auto split: if_splits)
        have nr: "\<not> wr_ready a (length buf)"
          using nzc noroom by (auto simp: wr_ready_def)
        from filter_flush_shape [OF fl]
        have "wr_wait a' (length buf) < wr_wait a (length buf)"
        proof
          assume "use a2 = IOBUF_OUTPUT_TEMP \<and> d_buf a3 = d_buf a2
            \<and> d_size a3 = d_size a2 + iobuf_buffer_size \<and> e_d_used a3 = 0
            \<and> e_d_buf a3 = e_d_buf a2"
          then show ?thesis using nr a' a2
            by (auto simp: wr_wait_def wr_ready_def iobuf_buffer_size_def
                  DEFAULT_IOBUF_BUFFER_SIZE_def)
        next
          assume "use a2 = IOBUF_OUTPUT \<and> d_buf a3 = [] \<and> d_size a3 = d_size a2"
          then show ?thesis using nr a' a2 pos
            by (auto simp: wr_wait_def wr_ready_def)
        qed
        with same show ?thesis by simp
      qed
    qed
  qed
qed

function iobuf_write_loop ::
  "filter_impl \<Rightarrow> iobuf \<Rightarrow> pipeline \<Rightarrow> world \<Rightarrow> byte list \<Rightarrow> io_result option" where
  "iobuf_write_loop F a chain w buf =
     (case iobuf_write_body F a chain w buf of
        None \<Rightarrow> None
      | Some (Done r) \<Rightarrow> Some r
      | Some (Again (a', chain', w', buf')) \<Rightarrow> iobuf_write_loop F a' chain' w' buf')"
  by pat_completeness auto
termination
proof (relation "measures [\<lambda>(F, a, chain, w, buf). length buf,
                           \<lambda>(F, a, chain, w, buf). wr_wait a (length buf)]")
  show "wf (measures [\<lambda>(F, a, chain, w, buf). length buf,
                      \<lambda>(F, a, chain, w, buf). wr_wait a (length buf)])"
    by simp
next
  fix F a chain w buf x2 x2a a' y chain' ya w' buf'
  assume "iobuf_write_body F a chain w buf = Some x2" "x2 = Again x2a" "(a', y) = x2a"
    "(chain', ya) = y" "(w', buf') = ya"
  then have "iobuf_write_body F a chain w buf = Some (Again (a', chain', w', buf'))" by simp
  from iobuf_write_body_Again [OF this]
  show "((F, a', chain', w', buf'), (F, a, chain, w, buf))
      \<in> measures [\<lambda>(F, a, chain, w, buf). length buf,
                   \<lambda>(F, a, chain, w, buf). wr_wait a (length buf)]"
    by auto
qed

declare iobuf_write_loop.simps [simp del]

definition iobuf_write ::
  "filter_impl \<Rightarrow> iobuf \<Rightarrow> pipeline \<Rightarrow> world \<Rightarrow> byte list \<Rightarrow> io_result option" where
  "iobuf_write F a chain w buf =
     (if use a = IOBUF_INPUT \<or> use a = IOBUF_INPUT_TEMP then None
      else
        iobuf_write_loop F
          (a\<lparr>e_d_buf := None, e_d_len := 0,
             e_d_preferred := (use a \<noteq> IOBUF_OUTPUT_TEMP
                               \<and> IOBUF_ZEROCOPY_THRESHOLD_SIZE \<le> length buf)\<rparr>)
          chain w buf)"


subsection \<open>Underflow and reading\<close>

text \<open>
  \<^verbatim>\<open>memcpy (a, b, sizeof *a)\<close> followed by \<^verbatim>\<open>xfree (b)\<close>: the head takes over every member
  of its chain node and stays where it is.
\<close>

definition splice :: "iobuf \<Rightarrow> iobuf \<Rightarrow> iobuf" where
  "splice a b = b\<lparr>addr := addr a\<rparr>"

text \<open>The first block of \<^verbatim>\<open>underflow_target\<close>: unread bytes move to the start of the
  buffer.\<close>

definition compact :: "iobuf \<Rightarrow> iobuf" where
  "compact a = a\<lparr>d_buf := drop (d_start a) (d_buf a), d_start := 0\<rparr>"

text \<open>
  The block of \<^verbatim>\<open>underflow_target\<close> that calls the filter (\<open>a\<close> has a filter, no
  pending EOF and no error): the result is the filter's return code and the node, the
  chain and the world after the call.  \<open>uf_len\<close> is the number of bytes asked for.
\<close>

definition uf_len :: "iobuf \<Rightarrow> nat" where
  "uf_len a =
     (let len = d_size a - d_len a
      in if e_d_preferred a \<and> d_len a < IOBUF_ZEROCOPY_THRESHOLD_SIZE
            \<and> IOBUF_ZEROCOPY_THRESHOLD_SIZE - d_len a < len
         then IOBUF_ZEROCOPY_THRESHOLD_SIZE - d_len a else len)"

definition uf_fill :: "filter_impl \<Rightarrow> iobuf \<Rightarrow> pipeline \<Rightarrow> world \<Rightarrow> io_result option" where
  "uf_fill F a chain w =
     (if uf_len a = 0 then Some (0, a, chain, w)
      else if d_len a = 0 \<and> e_d_buf a \<noteq> None \<and> IOBUF_ZEROCOPY_THRESHOLD_SIZE \<le> e_d_len a
      then
        (case call_filter F a IOBUFCTRL_UNDERFLOW chain w [] (e_d_len a) of
           None \<Rightarrow> None
         | Some (rc, out, len, ov, chain', w') \<Rightarrow>
             Some (rc, a\<lparr>filter_ov := ov, e_d_buf := Some (take len out), e_d_used := len\<rparr>,
                   chain', w'))
      else
        (case call_filter F a IOBUFCTRL_UNDERFLOW chain w [] (uf_len a) of
           None \<Rightarrow> None
         | Some (rc, out, len, ov, chain', w') \<Rightarrow>
             Some (rc, a\<lparr>filter_ov := ov, d_buf := d_buf a @ take len out\<rparr>, chain', w')))"

text \<open>The last lines of \<^verbatim>\<open>underflow_target\<close>.\<close>

definition uf_return :: "iobuf \<Rightarrow> pipeline \<Rightarrow> world \<Rightarrow> io_result option" where
  "uf_return a chain w =
     (if \<not> d_start a \<le> d_len a then None
      else if 0 < e_d_used a then Some (0, a, chain, w)
      else if d_start a < d_len a
      then Some (uint (d_buf a ! d_start a), a\<lparr>d_start := d_start a + 1\<rparr>, chain, w)
      else Some (-1, a, chain, w))"

definition underflow_target ::
  "filter_impl \<Rightarrow> iobuf \<Rightarrow> pipeline \<Rightarrow> world \<Rightarrow> bool \<Rightarrow> nat \<Rightarrow> io_result option" where
  "underflow_target F a0 chain w clear_pending_eof target =
     (if use a0 = IOBUF_INPUT_TEMP then Some (-1, a0, chain, w)
      else if use a0 \<noteq> IOBUF_INPUT then None
      else if \<not> d_start a0 \<le> d_len a0 then None
      else
        let a = compact (a0\<lparr>e_d_used := 0\<rparr>) in
        if d_len a < target \<and> filter_eof a then
          (if \<not> clear_pending_eof then Some (-1, a, chain, w)
           else
             case chain of
               b # rest \<Rightarrow> Some (-1, splice a b, rest, w)
             | [] \<Rightarrow> Some (-1, a\<lparr>filter_eof := False\<rparr>, [], w))
        else if d_len a = 0 \<and> error a \<noteq> 0 then Some (-1, a, chain, w)
        else if filter a \<noteq> None \<and> \<not> filter_eof a \<and> error a = 0 then
          (case uf_fill F a chain w of
             None \<Rightarrow> None
           | Some (rc, a1, chain1, w1) \<Rightarrow>
               if rc = -1 then
                 (case call_filter F a1 IOBUFCTRL_FREE chain1 w1 [] 0 of
                    None \<Rightarrow> None
                  | Some (rc2, out2, len2, ov2, chain2, w2) \<Rightarrow>
                      let a2 = a1\<lparr>filter_ov := None, filter := None, filter_eof := True\<rparr>
                      in if clear_pending_eof \<and> d_len a2 = 0 \<and> e_d_used a2 = 0
                            \<and> chain2 \<noteq> []
                         then Some (-1, splice a2 (hd chain2), tl chain2, w2)
                         else if d_len a2 = 0 \<and> e_d_used a2 = 0
                         then Some (-1, a2, chain2, w2)
                         else uf_return a2 chain2 w2)
               else if rc \<noteq> 0 then
                 (let a2 = a1\<lparr>error := rc\<rparr>
                  in if d_len a2 = 0 \<and> e_d_used a2 = 0 then Some (-1, a2, chain1, w1)
                     else uf_return a2 chain1 w1)
               else uf_return a1 chain1 w1)
        else uf_return a chain w)"

definition underflow ::
  "filter_impl \<Rightarrow> iobuf \<Rightarrow> pipeline \<Rightarrow> world \<Rightarrow> bool \<Rightarrow> io_result option" where
  "underflow F a chain w clear_pending_eof = underflow_target F a chain w clear_pending_eof 1"

definition iobuf_readbyte ::
  "filter_impl \<Rightarrow> iobuf \<Rightarrow> pipeline \<Rightarrow> world \<Rightarrow> io_result option" where
  "iobuf_readbyte F a chain w =
     (if use a = IOBUF_OUTPUT \<or> use a = IOBUF_OUTPUT_TEMP then None
      else if \<not> d_start a \<le> d_len a then None
      else if nlimit a \<noteq> 0 \<and> nlimit a \<le> nbytes a then Some (-1, a, chain, w)
      else if d_start a < d_len a
      then Some (uint (d_buf a ! d_start a),
                 a\<lparr>d_start := d_start a + 1, nbytes := nbytes a + 1\<rparr>, chain, w)
      else
        case underflow F a chain w True of
          None \<Rightarrow> None
        | Some (c, a', chain', w') \<Rightarrow>
            if c = -1 then Some (-1, a', chain', w')
            else if \<not> d_start a' \<le> d_len a' then None
            else Some (c, a'\<lparr>nbytes := nbytes a' + 1\<rparr>, chain', w'))"

text \<open>
  \<^verbatim>\<open>iobuf_read (a, buffer, buflen)\<close>.  The caller's buffer is \<open>None\<close> for \<^verbatim>\<open>NULL\<close> and
  otherwise the bytes stored so far; \<open>n\<close> counts them.  The result is the return value
  and the buffer, with the pipeline and the world.
\<close>

type_synonym rd_result = "int \<times> byte list option \<times> iobuf \<times> pipeline \<times> world"

text \<open>The \<^verbatim>\<open>nlimit\<close> branch: byte by byte through \<^verbatim>\<open>iobuf_readbyte\<close>.\<close>

function iobuf_read_limited ::
  "filter_impl \<Rightarrow> iobuf \<Rightarrow> pipeline \<Rightarrow> world \<Rightarrow> byte list option \<Rightarrow> nat \<Rightarrow> nat
     \<Rightarrow> rd_result option" where
  "iobuf_read_limited F a chain w buf n buflen =
     (if n < buflen then
        (case iobuf_readbyte F a chain w of
           None \<Rightarrow> None
         | Some (c, a', chain', w') \<Rightarrow>
             if c = -1 then Some (if n = 0 then -1 else int n, buf, a', chain', w')
             else iobuf_read_limited F a' chain' w'
                    (map_option (\<lambda>b. b @ [word_of_int c]) buf) (n + 1) buflen)
      else Some (int n, buf, a, chain, w))"
  by pat_completeness auto
termination
  by (relation "measure (\<lambda>(F, a, chain, w, buf, n, buflen). buflen - n)") auto

declare iobuf_read_limited.simps [simp del]

text \<open>The blocks of the body of the \<^verbatim>\<open>do ... while (n < buflen)\<close> loop: \<open>rd_drain\<close>
  takes bytes from the internal buffer, \<open>rd_extern\<close> sets up the external buffer.\<close>

definition rd_drain ::
  "iobuf \<Rightarrow> byte list option \<Rightarrow> nat \<Rightarrow> nat \<Rightarrow> iobuf \<times> byte list option \<times> nat" where
  "rd_drain a buf n buflen =
     (if n < buflen \<and> d_start a < d_len a then
        let sz = (if buflen - n < d_len a - d_start a then buflen - n
                  else d_len a - d_start a)
        in (a\<lparr>d_start := d_start a + sz\<rparr>,
            map_option (\<lambda>b. b @ take sz (drop (d_start a) (d_buf a))) buf, n + sz)
      else (a, buf, n))"

definition rd_extern :: "iobuf \<Rightarrow> byte list option \<Rightarrow> nat \<Rightarrow> nat \<Rightarrow> iobuf" where
  "rd_extern a buf n buflen =
     (if use a \<noteq> IOBUF_INPUT_TEMP \<and> buf \<noteq> None \<and> n < buflen then
        let elen = (buflen - n) div IOBUF_ZEROCOPY_THRESHOLD_SIZE * IOBUF_ZEROCOPY_THRESHOLD_SIZE
        in a\<lparr>e_d_buf := (if elen = 0 then None else Some []), e_d_len := elen\<rparr>
      else a)"

definition iobuf_read_body ::
  "filter_impl \<Rightarrow> iobuf \<Rightarrow> pipeline \<Rightarrow> world \<Rightarrow> byte list option \<Rightarrow> nat \<Rightarrow> nat
     \<Rightarrow> (rd_result, iobuf \<times> pipeline \<times> world \<times> byte list option \<times> nat) step option" where
  "iobuf_read_body F a chain w buf n buflen =
     (case rd_drain a buf n buflen of
        (a1, buf1, n1) \<Rightarrow>
          if n1 < buflen then
            (case underflow F (rd_extern a1 buf1 n1 buflen) chain w True of
               None \<Rightarrow> None
             | Some (c, a3, chain3, w3) \<Rightarrow>
                 if c = -1 then
                   Some (Done (if n1 = 0 then -1 else int n1, buf1,
                               a3\<lparr>e_d_buf := None, e_d_len := 0, nbytes := nbytes a3 + n1\<rparr>,
                               chain3, w3))
                 else
                   let ext = (e_d_buf a3 \<noteq> None \<and> 0 < e_d_used a3);
                       buf4 = (if ext
                               then map_option
                                      (\<lambda>b. b @ take (e_d_used a3) (the (e_d_buf a3))) buf1
                               else map_option (\<lambda>b. b @ [word_of_int c]) buf1);
                       n4 = (if ext then n1 + e_d_used a3 else n1 + 1);
                       a4 = a3\<lparr>e_d_buf := None, e_d_len := 0\<rparr>
                   in if n4 < buflen then Some (Again (a4, chain3, w3, buf4, n4))
                      else Some (Done (int n4, buf4, a4\<lparr>nbytes := nbytes a4 + n4\<rparr>,
                                       chain3, w3)))
          else Some (Done (int n1, buf1, a1\<lparr>nbytes := nbytes a1 + n1\<rparr>, chain, w)))"

lemma rd_drain_mono: "rd_drain a buf n buflen = (a1, buf1, n1) \<Longrightarrow> n \<le> n1"
  by (auto simp: rd_drain_def Let_def split: if_splits)

lemma iobuf_read_body_Again:
  assumes "iobuf_read_body F a chain w buf n buflen = Some (Again (a', chain', w', buf', n'))"
  shows "n < n' \<and> n' < buflen"
proof -
  obtain a1 buf1 n1 where dr: "rd_drain a buf n buflen = (a1, buf1, n1)"
    by (cases "rd_drain a buf n buflen") auto
  have "n \<le> n1" using dr by (rule rd_drain_mono)
  moreover from assms dr have "n1 < n' \<and> n' < buflen"
    unfolding iobuf_read_body_def Let_def
    by (auto split: if_splits option.splits prod.splits)
  ultimately show ?thesis by simp
qed

function iobuf_read_loop ::
  "filter_impl \<Rightarrow> iobuf \<Rightarrow> pipeline \<Rightarrow> world \<Rightarrow> byte list option \<Rightarrow> nat \<Rightarrow> nat
     \<Rightarrow> rd_result option" where
  "iobuf_read_loop F a chain w buf n buflen =
     (case iobuf_read_body F a chain w buf n buflen of
        None \<Rightarrow> None
      | Some (Done r) \<Rightarrow> Some r
      | Some (Again (a', chain', w', buf', n')) \<Rightarrow>
          iobuf_read_loop F a' chain' w' buf' n' buflen)"
  by pat_completeness auto
termination
proof (relation "measure (\<lambda>(F, a, chain, w, buf, n, buflen). buflen - n)")
  show "wf (measure (\<lambda>(F, a, chain, w, buf, n, buflen). buflen - n))" by simp
next
  fix F a chain w buf n buflen x2 x2a a' y chain' ya w' yb buf' n'
  assume "iobuf_read_body F a chain w buf n buflen = Some x2" "x2 = Again x2a"
    "(a', y) = x2a" "(chain', ya) = y" "(w', yb) = ya" "(buf', n') = yb"
  then have "iobuf_read_body F a chain w buf n buflen = Some (Again (a', chain', w', buf', n'))"
    by simp
  from iobuf_read_body_Again [OF this]
  show "((F, a', chain', w', buf', n', buflen), (F, a, chain, w, buf, n, buflen))
      \<in> measure (\<lambda>(F, a, chain, w, buf, n, buflen). buflen - n)"
    by auto
qed

declare iobuf_read_loop.simps [simp del]

definition iobuf_read ::
  "filter_impl \<Rightarrow> iobuf \<Rightarrow> pipeline \<Rightarrow> world \<Rightarrow> byte list option \<Rightarrow> nat \<Rightarrow> rd_result option"
  where
  "iobuf_read F a chain w buf buflen =
     (if use a = IOBUF_OUTPUT \<or> use a = IOBUF_OUTPUT_TEMP then None
      else if nlimit a \<noteq> 0 then iobuf_read_limited F a chain w buf 0 buflen
      else
        iobuf_read_loop F
          (a\<lparr>e_d_buf := None, e_d_len := 0,
             e_d_preferred := (use a \<noteq> IOBUF_INPUT_TEMP \<and> buf \<noteq> None
                               \<and> IOBUF_ZEROCOPY_THRESHOLD_SIZE \<le> buflen)\<rparr>)
          chain w buf 0 buflen)"


subsection \<open>The block filter\<close>

text \<open>
  The filter works on its chain through \<^verbatim>\<open>iobuf_get\<close>, \<^verbatim>\<open>iobuf_read\<close>, \<^verbatim>\<open>iobuf_put\<close> and
  \<^verbatim>\<open>iobuf_write\<close>; a \<^verbatim>\<open>NULL\<close> chain ends the process.  \<open>G\<close> gives the filters of the
  chain their meaning.

  Modelled from the spec: \<^verbatim>\<open>iobuf_get\<close> and \<^verbatim>\<open>iobuf_put\<close> are macros of iobuf.h, which is
  not among the sources; they are the specification's \<open>read_byte\<close> and \<open>write_byte\<close>,
  that is \<^verbatim>\<open>iobuf_readbyte\<close> and \<^verbatim>\<open>iobuf_writebyte\<close>.
\<close>

definition iobuf_get :: "filter_impl \<Rightarrow> pipeline \<Rightarrow> world \<Rightarrow> (int \<times> pipeline \<times> world) option"
  where
  "iobuf_get G chain w =
     (case chain of
        [] \<Rightarrow> None
      | b # rest \<Rightarrow>
          map_option (\<lambda>(c, b', rest', w'). (c, b' # rest', w')) (iobuf_readbyte G b rest w))"

definition iobuf_put ::
  "filter_impl \<Rightarrow> pipeline \<Rightarrow> world \<Rightarrow> nat \<Rightarrow> (int \<times> pipeline \<times> world) option" where
  "iobuf_put G chain w c =
     (case chain of
        [] \<Rightarrow> None
      | b # rest \<Rightarrow>
          map_option (\<lambda>(rc, b', rest', w'). (rc, b' # rest', w')) (iobuf_writebyte G b rest w c))"

definition chain_read ::
  "filter_impl \<Rightarrow> pipeline \<Rightarrow> world \<Rightarrow> nat \<Rightarrow> (int \<times> byte list \<times> pipeline \<times> world) option"
  where
  "chain_read G chain w buflen =
     (case chain of
        [] \<Rightarrow> None
      | b # rest \<Rightarrow>
          map_option (\<lambda>(c, buf, b', rest', w'). (c, the buf, b' # rest', w'))
            (iobuf_read G b rest w (Some []) buflen))"

definition chain_write ::
  "filter_impl \<Rightarrow> pipeline \<Rightarrow> world \<Rightarrow> byte list \<Rightarrow> (int \<times> pipeline \<times> world) option" where
  "chain_write G chain w buf =
     (case chain of
        [] \<Rightarrow> None
      | b # rest \<Rightarrow>
          map_option (\<lambda>(rc, b', rest', w'). (rc, b' # rest', w')) (iobuf_write G b rest w buf))"

text \<open>Modelled from the spec: \<^verbatim>\<open>gpg_error_from_syserror\<close> makes an error code of
  \<^verbatim>\<open>errno\<close>, which the model does not keep; it is a fixed positive code.\<close>

definition gpg_error_from_syserror :: int where
  "gpg_error_from_syserror = gpg_error_from_errno 5"

text \<open>The four length octets after \<open>0xFF\<close>: \<open>k\<close> octets are still to be read.  The
  result says whether all were there.\<close>

fun bf_get_len4 ::
  "nat \<Rightarrow> filter_impl \<Rightarrow> pipeline \<Rightarrow> world \<Rightarrow> nat \<Rightarrow> (bool \<times> nat \<times> pipeline \<times> world) option"
  where
  "bf_get_len4 0 G chain w len = Some (True, len, chain, w)"
| "bf_get_len4 (Suc k) G chain w len =
     (case iobuf_get G chain w of
        None \<Rightarrow> None
      | Some (c, chain', w') \<Rightarrow>
          if c = -1 then Some (False, len, chain', w')
          else bf_get_len4 k G chain' w' (push_bit 8 len OR nat c))"

text \<open>
  The block \<^verbatim>\<open>if (!a->size)\<close> of the read side, which gets the length octets of the
  next segment; \<open>n\<close> is the number of bytes delivered so far.  The result is the return
  code, whether the block left the loop with \<^verbatim>\<open>break\<close>, and the new state.
\<close>

definition bf_final ::
  "block_filter_ctx_t \<Rightarrow> nat \<Rightarrow> pipeline \<Rightarrow> world
     \<Rightarrow> (int \<times> bool \<times> block_filter_ctx_t \<times> pipeline \<times> world) option" where
  "bf_final a n chain w =
     (if bf_size a = 0
      then Some (if n = 0 then -1 else 0, True, a\<lparr>bf_eof := True\<rparr>, chain, w)
      else Some (0, False, a, chain, w))"

text \<open>The first length octet of a segment: from \<^verbatim>\<open>first_c\<close> when that is set,
  otherwise from the chain.\<close>

definition bf_first_octet ::
  "filter_impl \<Rightarrow> block_filter_ctx_t \<Rightarrow> pipeline \<Rightarrow> world \<Rightarrow> (int \<times> pipeline \<times> world) option"
  where
  "bf_first_octet G a chain w =
     (if first_c a \<noteq> 0 then Some (int (first_c a), chain, w) else iobuf_get G chain w)"

definition bf_get_length ::
  "filter_impl \<Rightarrow> block_filter_ctx_t \<Rightarrow> pipeline \<Rightarrow> world \<Rightarrow> nat
     \<Rightarrow> (int \<times> bool \<times> block_filter_ctx_t \<times> pipeline \<times> world) option" where
  "bf_get_length G a chain w n =
     (if partial a = 2
      then Some (if n = 0 then -1 else 0, True, a\<lparr>bf_eof := True\<rparr>, chain, w)
      else if partial a \<noteq> 0 then
        (case bf_first_octet G a chain w of
           None \<Rightarrow> None
         | Some (c, chain1, w1) \<Rightarrow>
             let a1 = (if first_c a \<noteq> 0 then a\<lparr>first_c := 0\<rparr> else a) in
             if first_c a = 0 \<and> c = -1 then Some (GPG_ERR_BAD_DATA, True, a1, chain1, w1)
             else if c < 192 then bf_final (a1\<lparr>bf_size := nat c, partial := 2\<rparr>) n chain1 w1
             else if c < 224 then
               (let a2 = a1\<lparr>bf_size := nat (c - 192) * 256\<rparr>
                in case iobuf_get G chain1 w1 of
                     None \<Rightarrow> None
                   | Some (c2, chain2, w2) \<Rightarrow>
                       if c2 = -1 then Some (GPG_ERR_BAD_DATA, True, a2, chain2, w2)
                       else bf_final (a2\<lparr>bf_size := bf_size a2 + nat c2 + 192, partial := 2\<rparr>)
                              n chain2 w2)
             else if c = 255 then
               (case bf_get_len4 4 G chain1 w1 0 of
                  None \<Rightarrow> None
                | Some (complete, len, chain2, w2) \<Rightarrow>
                    if \<not> complete then Some (GPG_ERR_BAD_DATA, True, a1, chain2, w2)
                    else bf_final (a1\<lparr>bf_size := len, partial := 2\<rparr>) n chain2 w2)
             else Some (0, False, a1\<lparr>bf_size := 2 ^ nat (c AND 0x1f)\<rparr>, chain1, w1))
      else None)"

lemma bf_get_length_size:
  assumes "bf_get_length G a chain w n = Some (rc, False, a', chain', w')"
  shows "0 < bf_size a'"
  using assms unfolding bf_get_length_def bf_final_def Let_def
  by (auto split: if_splits option.splits prod.splits)

text \<open>
  The loop \<^verbatim>\<open>while (!rc && size)\<close> of the read side with its inner loop
  \<^verbatim>\<open>while (!rc && size && a->size)\<close>, as one loop: a round gets the length octets when
  \<^verbatim>\<open>a->size\<close> is 0 and reads data otherwise.  \<open>out\<close> holds the \<open>n\<close> bytes delivered so
  far, \<open>sz\<close> is the room left.  A round that sets \<open>rc\<close> ends the loop.
\<close>

type_synonym bf_result = "int \<times> byte list \<times> block_filter_ctx_t \<times> pipeline \<times> world"

function bf_underflow_loop ::
  "filter_impl \<Rightarrow> block_filter_ctx_t \<Rightarrow> pipeline \<Rightarrow> world \<Rightarrow> nat \<Rightarrow> byte list
     \<Rightarrow> bf_result option" where
  "bf_underflow_loop G a chain w sz out =
     (if sz = 0 then Some (0, out, a, chain, w)
      else if bf_size a = 0 then
        (case bf_get_length G a chain w (length out) of
           None \<Rightarrow> None
         | Some (rc, stop, a', chain', w') \<Rightarrow>
             if stop then Some (rc, out, a', chain', w')
             else bf_underflow_loop G a' chain' w' sz out)
      else
        (let needed = (if sz < bf_size a then sz else bf_size a)
         in case chain_read G chain w needed of
              None \<Rightarrow> None
            | Some (c, data, chain', w') \<Rightarrow>
                if c < int needed then Some (GPG_ERR_BAD_DATA, out, a, chain', w')
                else bf_underflow_loop G (a\<lparr>bf_size := bf_size a - nat c\<rparr>) chain' w'
                       (sz - nat c) (out @ take (nat c) data)))"
  by pat_completeness auto
termination
proof (relation "measures [\<lambda>(G, a, chain, w, sz, out). sz,
                          \<lambda>(G, a, chain, w, sz, out). if bf_size a = 0 then 1 else 0]")
  show "wf (measures [\<lambda>(G, a, chain, w, sz, out). sz,
                      \<lambda>(G, a, chain, w, sz, out). if bf_size a = 0 then 1 else 0])"
    by simp
next
  fix G a chain w sz out x2 rc y stop ya a' yb chain' w'
  assume "bf_size a = 0" "bf_get_length G a chain w (length out) = Some x2" "(rc, y) = x2"
    "(stop, ya) = y" "(a', yb) = ya" "(chain', w') = yb" "\<not> stop"
  then have "bf_get_length G a chain w (length out) = Some (rc, False, a', chain', w')"
    by simp
  then have "0 < bf_size a'" by (rule bf_get_length_size)
  with \<open>bf_size a = 0\<close>
  show "((G, a', chain', w', sz, out), (G, a, chain, w, sz, out))
      \<in> measures [\<lambda>(G, a, chain, w, sz, out). sz,
                    \<lambda>(G, a, chain, w, sz, out). if bf_size a = 0 then 1 else 0]"
    by simp
next
  fix G a chain w sz out needed x2 c y data ya chain' w'
  assume "sz \<noteq> 0" "bf_size a \<noteq> 0" "needed = (if sz < bf_size a then sz else bf_size a)"
    "\<not> c < int needed"
  then have "0 < nat c" by (auto split: if_splits)
  with \<open>sz \<noteq> 0\<close>
  show "((G, a\<lparr>bf_size := bf_size a - nat c\<rparr>, chain', w', sz - nat c, out @ take (nat c) data),
         (G, a, chain, w, sz, out))
      \<in> measures [\<lambda>(G, a, chain, w, sz, out). sz,
                    \<lambda>(G, a, chain, w, sz, out). if bf_size a = 0 then 1 else 0]"
    by simp
qed

declare bf_underflow_loop.simps [simp del]

text \<open>The \<^verbatim>\<open>for\<close> loop that finds the block length: \<open>blen\<close> doubles while it is not
  above \<open>nb\<close>.  It starts at 1024; from 0 the C loop would not end.\<close>

function find_blen :: "nat \<Rightarrow> nat \<Rightarrow> nat \<Rightarrow> nat \<times> nat" where
  "find_blen blen c nb =
     (if 0 < blen \<and> blen \<le> nb then find_blen (blen * 2) (c + 1) nb else (blen, c))"
  by pat_completeness auto
termination
  by (relation "measure (\<lambda>(blen, c, nb). nb + 1 - blen)") auto

declare find_blen.simps [simp del]

lemma find_blen_ge: "blen \<le> fst (find_blen blen c nb)"
proof (induction blen c nb rule: find_blen.induct)
  case (1 blen c nb)
  show ?case
  proof (cases "0 < blen \<and> blen \<le> nb")
    case True
    with 1 have "blen * 2 \<le> fst (find_blen (blen * 2) (c + 1) nb)" by simp
    with True show ?thesis by (subst find_blen.simps) simp
  next
    case False
    then show ?thesis by (auto simp: find_blen.simps [of blen c nb])
  qed
qed

text \<open>
  One round of the \<^verbatim>\<open>do ... while (!rc && nb >= OP_MIN_PARTIAL_CHUNK)\<close> loop of the
  write side: \<open>p\<close> holds the bytes of the caller's buffer not yet written, \<open>nb\<close> (\<^verbatim>\<open>nbytes\<close>)
  counts them together with the bytes in the filter's own buffer.  The result is
  \<open>rc\<close> and the state after the round.
\<close>

definition bf_flush_round ::
  "filter_impl \<Rightarrow> block_filter_ctx_t \<Rightarrow> pipeline \<Rightarrow> world \<Rightarrow> byte list \<Rightarrow> nat
     \<Rightarrow> (int \<times> block_filter_ctx_t \<times> pipeline \<times> world \<times> byte list \<times> nat) option" where
  "bf_flush_round G a chain w p nb =
     (case find_blen (OP_MIN_PARTIAL_CHUNK * 2) (OP_MIN_PARTIAL_CHUNK_2POW + 1) nb of
        (blen2, c1) \<Rightarrow>
          let blen = blen2 div 2; c = c1 - 1 in
          if \<not> c \<le> 0x1f then None
          else
            case iobuf_put G chain w (c OR 0xe0) of
              None \<Rightarrow> None
            | Some (rc0, chain1, w1) \<Rightarrow>
                (case (if buffer a \<noteq> [] then
                         (if length (buffer a) \<noteq> OP_MIN_PARTIAL_CHUNK then None
                          else map_option
                                 (\<lambda>(r, ch, w'). (if r \<noteq> 0 then gpg_error_from_syserror else 0,
                                                  a\<lparr>buffer := []\<rparr>, ch, w',
                                                  nb - length (buffer a)))
                                 (chain_write G chain1 w1 (buffer a)))
                       else Some (0, a, chain1, w1, nb)) of
                   None \<Rightarrow> None
                 | Some (rc1, a2, chain2, w2, nb2) \<Rightarrow>
                     let n = (if blen < nb2 then blen else nb2) in
                     (case (if n \<noteq> 0 then chain_write G chain2 w2 (take n p)
                            else Some (0, chain2, w2)) of
                        None \<Rightarrow> None
                      | Some (r, chain3, w3) \<Rightarrow>
                          Some (if r \<noteq> 0 then gpg_error_from_syserror else rc1,
                                a2, chain3, w3, drop n p, nb2 - n))))"

lemma bf_flush_round_less:
  assumes "bf_flush_round G a chain w p nb = Some (rc, a', chain', w', p', nb')"
    and "0 < nb'"
  shows "nb' < nb"
proof -
  obtain blen2 c1 where fb:
    "find_blen (OP_MIN_PARTIAL_CHUNK * 2) (OP_MIN_PARTIAL_CHUNK_2POW + 1) nb = (blen2, c1)"
    by force
  have "OP_MIN_PARTIAL_CHUNK * 2 \<le> blen2"
    using find_blen_ge [of "OP_MIN_PARTIAL_CHUNK * 2" "OP_MIN_PARTIAL_CHUNK_2POW + 1" nb] fb
    by simp
  then have bl: "0 < blen2 div 2" by (simp add: OP_MIN_PARTIAL_CHUNK_def)
  from assms fb bl show ?thesis
    unfolding bf_flush_round_def Let_def
    by (auto split: if_splits option.splits prod.splits)
qed

function bf_flush_loop ::
  "filter_impl \<Rightarrow> block_filter_ctx_t \<Rightarrow> pipeline \<Rightarrow> world \<Rightarrow> byte list \<Rightarrow> nat
     \<Rightarrow> (int \<times> block_filter_ctx_t \<times> pipeline \<times> world \<times> byte list \<times> nat) option" where
  "bf_flush_loop G a chain w p nb =
     (case bf_flush_round G a chain w p nb of
        None \<Rightarrow> None
      | Some (rc, a', chain', w', p', nb') \<Rightarrow>
          if rc = 0 \<and> OP_MIN_PARTIAL_CHUNK \<le> nb'
          then bf_flush_loop G a' chain' w' p' nb'
          else Some (rc, a', chain', w', p', nb'))"
  by pat_completeness auto
termination
proof (relation "measure (\<lambda>(G, a, chain, w, p, nb). nb)")
  show "wf (measure (\<lambda>(G, a, chain, w, p, nb). nb))" by simp
next
  fix G a chain w p nb x2 rc y a' ya chain' yb w' yc p' nb'
  assume "bf_flush_round G a chain w p nb = Some x2" "(rc, y) = x2" "(a', ya) = y"
    "(chain', yb) = ya" "(w', yc) = yb" "(p', nb') = yc"
    and c: "rc = 0 \<and> OP_MIN_PARTIAL_CHUNK \<le> nb'"
  then have "bf_flush_round G a chain w p nb = Some (rc, a', chain', w', p', nb')"
    by simp
  moreover from c have "0 < nb'" by (simp add: OP_MIN_PARTIAL_CHUNK_def)
  ultimately have "nb' < nb" by (rule bf_flush_round_less)
  then show "((G, a', chain', w', p', nb'), (G, a, chain, w, p, nb))
      \<in> measure (\<lambda>(G, a, chain, w, p, nb). nb)" by simp
qed

declare bf_flush_loop.simps [simp del]

text \<open>The end markers written by \<^verbatim>\<open>IOBUFCTRL_FREE\<close> on the write side: the header of
  the last segment, of \<open>len\<close> bytes.\<close>

definition bf_put_final_header ::
  "filter_impl \<Rightarrow> pipeline \<Rightarrow> world \<Rightarrow> nat \<Rightarrow> (int \<times> pipeline \<times> world) option" where
  "bf_put_final_header G chain w len =
     (if len < 192 then iobuf_put G chain w len
      else if len < 8384 then
        (case iobuf_put G chain w ((len - 192) div 256 + 192) of
           None \<Rightarrow> None
         | Some (rc, chain1, w1) \<Rightarrow>
             if rc \<noteq> 0 then Some (rc, chain1, w1)
             else iobuf_put G chain1 w1 ((len - 192) mod 256))
      else
        (case iobuf_put G chain w 0xff of
           None \<Rightarrow> None
         | Some (rc, chain1, w1) \<Rightarrow>
             if rc \<noteq> 0 then Some (rc, chain1, w1)
             else
               case iobuf_put G chain1 w1 (drop_bit 24 len AND 0xff) of
                 None \<Rightarrow> None
               | Some (rc, chain2, w2) \<Rightarrow>
                   if rc \<noteq> 0 then Some (rc, chain2, w2)
                   else
                     case iobuf_put G chain2 w2 (drop_bit 16 len AND 0xff) of
                       None \<Rightarrow> None
                     | Some (rc, chain3, w3) \<Rightarrow>
                         if rc \<noteq> 0 then Some (rc, chain3, w3)
                         else
                           case iobuf_put G chain3 w3 (drop_bit 8 len AND 0xff) of
                             None \<Rightarrow> None
                           | Some (rc, chain4, w4) \<Rightarrow>
                               if rc \<noteq> 0 then Some (rc, chain4, w4)
                               else iobuf_put G chain4 w4 (len AND 0xff)))"

definition block_filter ::
  "filter_impl \<Rightarrow> block_filter_ctx_t \<Rightarrow> control \<Rightarrow> pipeline \<Rightarrow> world \<Rightarrow> byte list \<Rightarrow> nat
     \<Rightarrow> block_filter_ctx_t cb_result option" where
  "block_filter G a ctl chain w buf sz =
     (case ctl of
        IOBUFCTRL_UNDERFLOW \<Rightarrow>
          if sz = 0 then None
          else if bf_eof a then Some (-1, [], 0, a, chain, w)
          else
            map_option (\<lambda>(rc, out, a', chain', w'). (rc, out, length out, a', chain', w'))
              (bf_underflow_loop G a chain w sz [])
      | IOBUFCTRL_FLUSH \<Rightarrow>
          if partial a \<noteq> 0 then
            (let nb = sz + length (buffer a) in
             if \<not> length (buffer a) \<le> OP_MIN_PARTIAL_CHUNK then None
             else if nb < OP_MIN_PARTIAL_CHUNK
             then Some (0, [], sz, a\<lparr>buffer := buffer a @ take sz buf\<rparr>, chain, w)
             else
               case bf_flush_loop G a chain w (take sz buf) nb of
                 None \<Rightarrow> None
               | Some (rc, a', chain', w', p', nb') \<Rightarrow>
                   if rc = 0 \<and> nb' \<noteq> 0 then
                     (if buffer a' \<noteq> [] \<or> \<not> nb' < OP_MIN_PARTIAL_CHUNK then None
                      else Some (rc, [], sz, a'\<lparr>buffer := take nb' p'\<rparr>, chain', w'))
                   else Some (rc, [], sz, a', chain', w'))
          else None
      | IOBUFCTRL_INIT \<Rightarrow>
          (let a1 = (if partial a \<noteq> 0 then a\<lparr>bf_count := 0\<rparr>
                     else if bf_use a = IOBUF_INPUT then a\<lparr>bf_count := 0, bf_size := 0\<rparr>
                     else a\<lparr>bf_count := bf_size a\<rparr>)
           in Some (0, [], sz, a1\<lparr>bf_eof := False, buffer := []\<rparr>, chain, w))
      | IOBUFCTRL_FREE \<Rightarrow>
          if bf_use a = IOBUF_OUTPUT then
            (if partial a \<noteq> 0 then
               (let len = length (buffer a) mod 2 ^ 32 in
                case bf_put_final_header G chain w len of
                  None \<Rightarrow> None
                | Some (rc, chain1, w1) \<Rightarrow>
                    (case (if rc = 0 \<and> len \<noteq> 0
                           then chain_write G chain1 w1 (take len (buffer a))
                           else Some (rc, chain1, w1)) of
                       None \<Rightarrow> None
                     | Some (rc2, chain2, w2) \<Rightarrow>
                         Some (if rc2 \<noteq> 0 then gpg_error_from_syserror else 0, [], sz,
                               a\<lparr>buffer := []\<rparr>, chain2, w2)))
             else None)
          else Some (0, [], sz, a, chain, w)
      | IOBUFCTRL_DESC \<Rightarrow> Some (0, [], sz, a, chain, w)
      | IOBUFCTRL_CANCEL \<Rightarrow> Some (0, [], sz, a, chain, w)
      | IOBUFCTRL_PEEK \<Rightarrow> Some (0, [], sz, a, chain, w))"

text \<open>
  The filter functions of the program.  \<open>U\<close> gives the filters defined outside
  iobuf.c their meaning, \<open>G\<close> the filters of the chain.  \<open>run_filter U k\<close> is the
  meaning of the filters of a pipeline in which at most \<open>k\<close> block filters are
  stacked below the node called.
\<close>

definition dispatch :: "filter_impl \<Rightarrow> filter_impl \<Rightarrow> filter_impl" where
  "dispatch U G f ov ctl chain w buf len =
     (case f of
        File_filter \<Rightarrow>
          (case ov of
             Some (File_ctx c) \<Rightarrow>
               map_option (\<lambda>(rc, out, n, c', ch, w'). (rc, out, n, Some (File_ctx c'), ch, w'))
                 (file_filter c ctl chain w buf len)
           | _ \<Rightarrow> None)
      | Block_filter \<Rightarrow>
          (case ov of
             Some (Block_ctx c) \<Rightarrow>
               map_option (\<lambda>(rc, out, n, c', ch, w'). (rc, out, n, Some (Block_ctx c'), ch, w'))
                 (block_filter G c ctl chain w buf len)
           | _ \<Rightarrow> None)
      | User_filter i \<Rightarrow> U (User_filter i) ov ctl chain w buf len)"

definition no_filters :: filter_impl where
  "no_filters f ov ctl chain w buf len = None"

primrec run_filter :: "filter_impl \<Rightarrow> nat \<Rightarrow> filter_impl" where
  "run_filter U 0 = dispatch U no_filters"
| "run_filter U (Suc k) = dispatch U (run_filter U k)"


subsection \<open>Making, pushing and popping\<close>

definition iobuf_alloc :: "world \<Rightarrow> iobuf_use \<Rightarrow> nat \<Rightarrow> (iobuf \<times> world) option" where
  "iobuf_alloc w u bufsize =
     (if bufsize = 0 then None
      else Some (\<lparr>addr = brk w, use = u, d_buf = [], d_start = 0, d_size = bufsize,
                  e_d_buf = None, e_d_len = 0, e_d_used = 0, e_d_preferred = False,
                  nofast = False, filter_eof = False, error = 0, nlimit = 0, nbytes = 0,
                  ntotal = 0, filter = None, filter_ov = None, filter_ov_owner = False,
                  no = number w + 1, subno = 0, real_fname = None\<rparr>,
                 w\<lparr>brk := brk w + 1, number := number w + 1\<rparr>))"

definition iobuf_temp :: "world \<Rightarrow> (iobuf \<times> world) option" where
  "iobuf_temp w = iobuf_alloc w IOBUF_OUTPUT_TEMP iobuf_buffer_size"

definition iobuf_temp_with_content :: "world \<Rightarrow> byte list \<Rightarrow> (iobuf \<times> world) option" where
  "iobuf_temp_with_content w bs =
     map_option (\<lambda>(a, w'). (a\<lparr>d_buf := bs\<rparr>, w'))
       (iobuf_alloc w IOBUF_INPUT_TEMP (length bs))"

text \<open>
  \<^verbatim>\<open>iobuf_push_filter2 (a, f, ov, rel_ov)\<close>.  \<open>push_nodes\<close> is the part between the two
  early returns and the call of the new filter: the new node \<open>b\<close> at a fresh address
  takes the members of \<open>a\<close>, and \<open>a\<close> is made the node of the new filter.
\<close>

definition push_shadow :: "iobuf \<Rightarrow> world \<Rightarrow> iobuf" where
  "push_shadow a w = a\<lparr>addr := brk w\<rparr>"

definition push_head ::
  "iobuf \<Rightarrow> filter_fn option \<Rightarrow> filter_ctx option \<Rightarrow> bool \<Rightarrow> iobuf" where
  "push_head a f ov rel_ov =
     (let a1 = a\<lparr>filter := None, filter_ov := None, filter_ov_owner := False,
                 filter_eof := False\<rparr>;
          a2 = (if use a1 = IOBUF_OUTPUT_TEMP
                then a1\<lparr>use := IOBUF_OUTPUT, d_size := iobuf_buffer_size\<rparr>
                else if use a1 = IOBUF_INPUT_TEMP
                then a1\<lparr>use := IOBUF_INPUT, d_size := iobuf_buffer_size\<rparr>
                else a1)
      in a2\<lparr>d_buf := [], d_start := 0, ntotal := ntotal a + nbytes a, nlimit := 0,
            nbytes := 0, nofast := False, filter := f, filter_ov := ov,
            filter_ov_owner := rel_ov, subno := subno a + 1\<rparr>)"

definition iobuf_push_filter2 ::
  "filter_impl \<Rightarrow> iobuf \<Rightarrow> pipeline \<Rightarrow> world \<Rightarrow> filter_fn option \<Rightarrow> filter_ctx option \<Rightarrow> bool
     \<Rightarrow> io_result option" where
  "iobuf_push_filter2 F a0 chain0 w0 f ov rel_ov =
     (case (if use a0 = IOBUF_OUTPUT then filter_flush F a0 chain0 w0
            else Some (0, a0, chain0, w0)) of
        None \<Rightarrow> None
      | Some (rc, a, chain, w) \<Rightarrow>
          if rc \<noteq> 0 then Some (rc, a, chain, w)
          else if MAX_NESTING_FILTER \<le> subno a then Some (GPG_ERR_BAD_DATA, a, chain, w)
          else
            let b = push_shadow a w;
                w1 = w\<lparr>brk := brk w + 1\<rparr>;
                a1 = push_head a f ov rel_ov
            in if filter a1 \<noteq> None then
                 (case call_filter F a1 IOBUFCTRL_INIT (b # chain) w1 [] 0 of
                    None \<Rightarrow> None
                  | Some (rc1, out, len, ov1, chain1, w2) \<Rightarrow>
                      Some (rc1, a1\<lparr>filter_ov := ov1\<rparr>, chain1, w2))
               else Some (0, a1, b # chain, w1))"

definition iobuf_push_filter ::
  "filter_impl \<Rightarrow> iobuf \<Rightarrow> pipeline \<Rightarrow> world \<Rightarrow> filter_fn option \<Rightarrow> filter_ctx option
     \<Rightarrow> io_result option" where
  "iobuf_push_filter F a chain w f ov = iobuf_push_filter2 F a chain w f ov False"

text \<open>
  \<^verbatim>\<open>iobuf_pop_filter (a, f, ov)\<close>.  The contexts are values here, so \<^verbatim>\<open>b->filter_ov == ov\<close>
  compares values.  \<open>pop_find\<close> is the search loop: the nodes before the first node
  with the filter, that node, and its chain.
\<close>

fun pop_find ::
  "pipeline \<Rightarrow> filter_fn option \<Rightarrow> filter_ctx option \<Rightarrow> (pipeline \<times> iobuf \<times> pipeline) option"
  where
  "pop_find [] f ov = None"
| "pop_find (b # rest) f ov =
     (if filter b = f \<and> (ov = None \<or> filter_ov b = ov) then Some ([], b, rest)
      else map_option (\<lambda>(pre, b', post). (b # pre, b', post)) (pop_find rest f ov))"

definition iobuf_pop_filter ::
  "filter_impl \<Rightarrow> iobuf \<Rightarrow> pipeline \<Rightarrow> world \<Rightarrow> filter_fn option \<Rightarrow> filter_ctx option
     \<Rightarrow> io_result option" where
  "iobuf_pop_filter F a chain w f ov =
     (if use a = IOBUF_INPUT_TEMP \<or> use a = IOBUF_OUTPUT_TEMP then
        (if chain \<noteq> [] then None else Some (0, a, chain, w))
      else if filter a = None then
        (case chain of
           [] \<Rightarrow> None
         | b # rest \<Rightarrow> Some (0, splice a b, rest, w))
      else
        case pop_find (a # chain) f ov of
          None \<Rightarrow> None
        | Some (pre, b, post) \<Rightarrow>
            (case (if use a = IOBUF_OUTPUT then filter_flush F b post w
                   else Some (0, b, post, w)) of
               None \<Rightarrow> None
             | Some (rc, b1, post1, w1) \<Rightarrow>
                 if rc \<noteq> 0 then Some (rc, hd (pre @ b1 # post1), tl (pre @ b1 # post1), w1)
                 else
                   (case (if filter b1 \<noteq> None
                          then call_filter F b1 IOBUFCTRL_FREE post1 w1 [] 0
                          else Some (0, [], 0, filter_ov b1, post1, w1)) of
                      None \<Rightarrow> None
                    | Some (rc2, out, len, ov2, post2, w2) \<Rightarrow>
                        if rc2 \<noteq> 0
                        then Some (rc2, hd (pre @ b1\<lparr>filter_ov := ov2\<rparr> # post2),
                                   tl (pre @ b1\<lparr>filter_ov := ov2\<rparr> # post2), w2)
                        else
                          let b2 = (if ov2 \<noteq> None \<and> filter_ov_owner b1
                                    then b1\<lparr>filter_ov := None\<rparr>
                                    else b1\<lparr>filter_ov := ov2\<rparr>)
                          in if pre = [] \<and> post2 = [] then None
                             else if pre = [] then Some (0, splice b2 (hd post2), tl post2, w2)
                             else None)))"

text \<open>\<^verbatim>\<open>iobuf_set_partial_body_length_mode (a, len)\<close>; the function returns nothing, so
  the result is the pipeline and the world.\<close>

definition iobuf_set_partial_body_length_mode ::
  "filter_impl \<Rightarrow> iobuf \<Rightarrow> pipeline \<Rightarrow> world \<Rightarrow> nat \<Rightarrow> (iobuf \<times> pipeline \<times> world) option"
  where
  "iobuf_set_partial_body_length_mode F a chain w len =
     (if len = 0 then
        (if filter a \<noteq> Some Block_filter then None
         else map_option snd (iobuf_pop_filter F a chain w (Some Block_filter) None))
      else
        map_option snd
          (iobuf_push_filter F a chain w (Some Block_filter)
             (Some (Block_ctx \<lparr>bf_use = use a, bf_size = 0, bf_count = 0, partial = 1,
                               buffer = [], first_c = len, bf_eof = False\<rparr>))))"

text \<open>\<^verbatim>\<open>iobuf_seek (a, newpos)\<close>: on a stream the node worked on is the last of the
  pipeline, on a temp buffer the head.\<close>

definition seek_reset :: "iobuf \<Rightarrow> nat \<Rightarrow> iobuf" where
  "seek_reset a newpos =
     a\<lparr>d_start := 0, nbytes := 0, nlimit := 0, nofast := False, ntotal := newpos, error := 0\<rparr>"

definition iobuf_seek :: "iobuf \<Rightarrow> pipeline \<Rightarrow> world \<Rightarrow> nat \<Rightarrow> io_result option" where
  "iobuf_seek a chain w newpos =
     (if use a = IOBUF_OUTPUT \<or> use a = IOBUF_INPUT then
        (let p = a # chain; l = last p in
         if filter l \<noteq> Some File_filter then Some (-1, a, chain, w)
         else
           case filter_ov l of
             Some (File_ctx b) \<Rightarrow>
               (case sys_lseek (sys w) (ff_fp b) newpos of
                  (False, s') \<Rightarrow> Some (-1, a, chain, w\<lparr>sys := s'\<rparr>)
                | (True, s') \<Rightarrow>
                    let p' = butlast p @ [seek_reset (l\<lparr>d_buf := []\<rparr>) newpos]
                    in Some (0, hd p', tl p', w\<lparr>sys := s'\<rparr>))
           | _ \<Rightarrow> None)
      else if chain \<noteq> [] then None
      else Some (0, seek_reset a newpos, chain, w))"

text \<open>
  \<^verbatim>\<open>iobuf_peek\<close>.  Its loop calls \<^verbatim>\<open>underflow_target\<close> until enough bytes are buffered
  or EOF is returned; with a filter that keeps returning success and no byte it does
  not end, so the loop is a partial function.
\<close>

partial_function (option) iobuf_peek_loop ::
  "filter_impl \<Rightarrow> iobuf \<Rightarrow> pipeline \<Rightarrow> world \<Rightarrow> nat \<Rightarrow> (iobuf \<times> pipeline \<times> world) option"
  where
  "iobuf_peek_loop F a chain w buflen =
     (if d_len a - d_start a < buflen then
        (case underflow_target F a chain w False buflen of
           None \<Rightarrow> None
         | Some (c, a', chain', w') \<Rightarrow>
             if c = -1 then Some (a', chain', w')
             else if d_start a' \<noteq> 1 then None
             else iobuf_peek_loop F (a'\<lparr>d_start := 0\<rparr>) chain' w' buflen)
      else Some (a, chain, w))"

definition iobuf_peek ::
  "filter_impl \<Rightarrow> iobuf \<Rightarrow> pipeline \<Rightarrow> world \<Rightarrow> nat
     \<Rightarrow> (int \<times> byte list \<times> iobuf \<times> pipeline \<times> world) option" where
  "iobuf_peek F a chain w buflen0 =
     (if buflen0 = 0 then None
      else if \<not> (use a = IOBUF_INPUT \<or> use a = IOBUF_INPUT_TEMP) then None
      else
        let buflen = (if d_size a < buflen0 then d_size a else buflen0) in
        case iobuf_peek_loop F a chain w buflen of
          None \<Rightarrow> None
        | Some (a', chain', w') \<Rightarrow>
            let n = (if buflen < d_len a' - d_start a' then buflen else d_len a' - d_start a')
            in if n = 0 then Some (-1, [], a', chain', w')
               else Some (int n, take n (drop (d_start a') (d_buf a')), a', chain', w'))"


subsection \<open>Opening files\<close>

text \<open>
  \<^verbatim>\<open>do_open\<close>.  The result is the new pipeline (\<open>None\<close> for a \<^verbatim>\<open>NULL\<close> return) and the
  world.  The file name is \<open>None\<close> for \<^verbatim>\<open>NULL\<close>.  The host's pattern for numeric file
  descriptors (\<^verbatim>\<open>gnupg_check_special_filename\<close>, not among the sources) is not
  modelled: no name matches it.  \<^verbatim>\<open>file_filter\<close> with \<^verbatim>\<open>IOBUFCTRL_INIT\<close> sets the members
  of the context that \<^verbatim>\<open>do_open\<close> leaves uninitialised.
\<close>

definition FD_FOR_STDIN :: gnupg_fd_t where
  "FD_FOR_STDIN = 0"

definition FD_FOR_STDOUT :: gnupg_fd_t where
  "FD_FOR_STDOUT = 1"

definition file_ctx_init :: "gnupg_fd_t \<Rightarrow> bool \<Rightarrow> string \<Rightarrow> file_filter_ctx_t" where
  "file_ctx_init f print_only name =
     \<lparr>ff_fp = f, keep_open = False, no_cache = False, eof_seen = False, delayed_rc = 0,
      print_only_name = print_only, peeked = [], upeeked = 0, ff_fname = name\<rparr>"

definition do_open ::
  "world \<Rightarrow> string option \<Rightarrow> bool \<Rightarrow> iobuf_use \<Rightarrow> string \<Rightarrow> (iobuf option \<times> world) option"
  where
  "do_open w name special_filenames u opentype =
     (if \<not> (u = IOBUF_INPUT \<or> u = IOBUF_OUTPUT) then None
      else
        let std = (special_filenames \<and> (name = None \<or> name = Some ''-''));
            opened =
              (if std then
                 (if u = IOBUF_INPUT then (FD_FOR_STDIN, ''[stdin]'', w)
                  else (FD_FOR_STDOUT, ''[stdout]'', w))
               else
                 case name of
                   None \<Rightarrow> (GNUPG_INVALID_FD, [], w)
                 | Some nm \<Rightarrow>
                     (case (if u = IOBUF_INPUT
                            then fd_cache_open (close_cache w) (sys w) nm opentype
                            else direct_open (close_cache w) (sys w) nm opentype) of
                        (f, cache', s') \<Rightarrow> (f, nm, w\<lparr>sys := s', close_cache := cache'\<rparr>)))
        in case opened of
             (f, nm, w1) \<Rightarrow>
               if \<not> std \<and> f = GNUPG_INVALID_FD then Some (None, w1)
               else
                 case iobuf_alloc w1 u iobuf_buffer_size of
                   None \<Rightarrow> None
                 | Some (a, w2) \<Rightarrow>
                     Some (Some (a\<lparr>real_fname := (if std then None else Some nm),
                                   filter := Some File_filter,
                                   filter_ov := Some (File_ctx (file_ctx_init f std nm))\<rparr>),
                           w2))"

definition iobuf_open :: "world \<Rightarrow> string option \<Rightarrow> (iobuf option \<times> world) option" where
  "iobuf_open w name = do_open w name True IOBUF_INPUT ''rb''"

definition iobuf_create :: "world \<Rightarrow> string option \<Rightarrow> (iobuf option \<times> world) option" where
  "iobuf_create w name = do_open w name True IOBUF_OUTPUT ''wb''"


(*ENGINE2*)
text \<open>An environment for examples: every descriptor delivers the bytes 1, 2, 3 and is
  seekable or not as the argument says; \<^verbatim>\<open>open\<close> yields descriptor 7 for every path.\<close>

definition fd_example :: "bool \<Rightarrow> fdesc" where
  "fd_example sk = \<lparr>content = [1, 2, 3], pos = 0, chunk = 0, intr = 0, fail_at = None,
     rd_errno = 5, seekable = sk, written = [], wr_errno = None\<rparr>"

definition os_example :: "bool \<Rightarrow> os" where
  "os_example sk = \<lparr>fds = (\<lambda>f. fd_example sk), open_ret = (\<lambda>p. 7), open_log = [],
     close_ret = (\<lambda>f. 0), close_log = []\<rparr>"

text \<open>A world for examples, and the input pipeline \<^verbatim>\<open>iobuf_temp_with_content\<close> makes
  of some bytes in it.\<close>

definition world_example :: world where
  "world_example = \<lparr>sys = os_example True, close_cache = [], brk = 0, number = 0\<rparr>"

definition temp_example :: "byte list \<Rightarrow> iobuf" where
  "temp_example bs = fst (the (iobuf_temp_with_content world_example bs))"

text \<open>Four octets read as a big-endian number.\<close>

definition be32 :: "nat \<Rightarrow> nat \<Rightarrow> nat \<Rightarrow> nat \<Rightarrow> nat" where
  "be32 c1 c2 c3 c4 = c1 * 2 ^ 24 + c2 * 2 ^ 16 + c3 * 2 ^ 8 + c4"

text \<open>A block filter context as \<^verbatim>\<open>iobuf_set_partial_body_length_mode\<close> makes it for an
  input pipeline, with the first length octet \<open>c\<close>.\<close>

definition bf_example :: "nat \<Rightarrow> block_filter_ctx_t" where
  "bf_example c = \<lparr>bf_use = IOBUF_INPUT, bf_size = 0, bf_count = 0, partial = 1, buffer = [],
     first_c = c, bf_eof = False\<rparr>"

text \<open>The input pipeline \<^verbatim>\<open>iobuf_open\<close> makes of the file \<open>x\<close> in the example world,
  and the world after the call.\<close>

definition file_example :: iobuf where
  "file_example = the (fst (the (iobuf_open world_example (Some ''x''))))"

definition world_opened :: world where
  "world_opened = snd (the (iobuf_open world_example (Some ''x'')))"

text \<open>The world after \<^verbatim>\<open>iobuf_temp_with_content\<close> has made \<open>temp_example bs\<close>.\<close>

definition world_temp :: "byte list \<Rightarrow> world" where
  "world_temp bs = snd (the (iobuf_temp_with_content world_example bs))"

(*PROPERTIES*)

section \<open>Properties of the string lists\<close>

lemma xtrymalloc_all_ok:
  "False \<notin> set env \<Longrightarrow> \<exists>env'. xtrymalloc env = (True, env') \<and> False \<notin> set env'"
  by (cases env) auto

lemma do_append_ok:
  "False \<notin> set env \<Longrightarrow>
   \<exists>env'. do_append_to_strlist env list s = Some (list @ [\<lparr>d = s, flags = 0\<rparr>], env')
      \<and> False \<notin> set env'"
  using xtrymalloc_all_ok [of env] by (auto simp: do_append_to_strlist_def)

lemma trim_nonempty: "trim_spaces x \<noteq> [] \<Longrightarrow> x \<noteq> []"
  by (auto simp: trim_spaces_def)

text \<open>The last round of the loop: the string holds one token and no delimiter.\<close>

lemma tokenize_loop_last:
  assumes "False \<notin> set env" "set x \<inter> set delim = {}" "trim_spaces x \<noteq> []"
  shows "tokenize_loop env x delim acc = Some (acc @ [\<lparr>d = trim_spaces x, flags = 0\<rparr>])"
proof -
  have tw: "takeWhile (\<lambda>c. c \<notin> set delim) x = x"
    using assms(2) by (auto simp: takeWhile_eq_all_conv)
  have dw: "dropWhile (\<lambda>c. c \<notin> set delim) x = []"
    using assms(2) by (auto simp: dropWhile_eq_Nil_conv)
  have ne: "x \<noteq> []" using assms(3) by (rule trim_nonempty)
  obtain env' where ap:
    "do_append_to_strlist env acc x = Some (acc @ [\<lparr>d = x, flags = 0\<rparr>], env')"
    using do_append_ok [OF assms(1)] by blast
  show ?thesis
    by (subst tokenize_loop.simps)
       (simp add: tw dw ne ap assms(3) strlist_prev_last_def Let_def)
qed

text \<open>A round that ends at a delimiter: the token goes to the end of the new list and
  the loop goes on behind the delimiter.\<close>

lemma tokenize_loop_step:
  assumes "False \<notin> set env" "set x \<inter> set delim = {}" "trim_spaces x \<noteq> []"
    and "c \<in> set delim"
  shows "\<exists>env'. False \<notin> set env' \<and> tokenize_loop env (x @ c # rest) delim acc =
           tokenize_loop env' rest delim (acc @ [\<lparr>d = trim_spaces x, flags = 0\<rparr>])"
proof -
  have tw: "takeWhile (\<lambda>c. c \<notin> set delim) (x @ c # rest) = x"
    using assms(2,4) by (subst takeWhile_append2) auto
  have dw: "dropWhile (\<lambda>c. c \<notin> set delim) (x @ c # rest) = c # rest"
    using assms(2,4) by (subst dropWhile_append2) auto
  have ne: "x \<noteq> []" using assms(3) by (rule trim_nonempty)
  obtain env' where ap:
    "do_append_to_strlist env acc x = Some (acc @ [\<lparr>d = x, flags = 0\<rparr>], env')"
    and ok: "False \<notin> set env'"
    using do_append_ok [OF assms(1)] by blast
  have "tokenize_loop env (x @ c # rest) delim acc =
           tokenize_loop env' rest delim (acc @ [\<lparr>d = trim_spaces x, flags = 0\<rparr>])"
    by (subst tokenize_loop.simps)
       (simp add: tw dw ne ap assms(3) strlist_prev_last_def Let_def)
  with ok show ?thesis by blast
qed

lemma tokenize_loop_join:
  "xs \<noteq> [] \<Longrightarrow> False \<notin> set env \<Longrightarrow> c \<in> set delim \<Longrightarrow>
   \<forall>x\<in>set xs. set x \<inter> set delim = {} \<and> trim_spaces x \<noteq> [] \<Longrightarrow>
   tokenize_loop env (join c xs) delim acc =
     Some (acc @ map (\<lambda>x. \<lparr>d = trim_spaces x, flags = 0\<rparr>) xs)"
proof (induction c xs arbitrary: env acc rule: join.induct)
  case (1 c)
  then show ?case by simp
next
  case (2 c x)
  then show ?case using tokenize_loop_last [of env x delim acc] by simp
next
  case (3 c x y ys)
  obtain env' where ok: "False \<notin> set env'"
    and st: "tokenize_loop env (x @ c # join c (y # ys)) delim acc =
      tokenize_loop env' (join c (y # ys)) delim (acc @ [\<lparr>d = trim_spaces x, flags = 0\<rparr>])"
    using tokenize_loop_step [of env x delim c "join c (y # ys)" acc] "3.prems" by auto
  have "tokenize_loop env' (join c (y # ys)) delim (acc @ [\<lparr>d = trim_spaces x, flags = 0\<rparr>])
      = Some ((acc @ [\<lparr>d = trim_spaces x, flags = 0\<rparr>])
              @ map (\<lambda>x. \<lparr>d = trim_spaces x, flags = 0\<rparr>) (y # ys))"
    using "3.prems" ok by (intro "3.IH") auto
  with st show ?case by simp
qed

text \<open>
  C9, as the code has it.  Let the list be non-empty, let no element contain a
  delimiter character and let none be empty after trimming; let every allocation
  succeed.  Tokenizing the elements joined by a delimiter character appends to the
  caller's list one node per element, in order, with flags 0 and with the \<^emph>\<open>trimmed\<close>
  element as payload, and returns the first new node.  The payloads are the original
  elements exactly when trimming leaves every element as it is.
\<close>

theorem tokenize_join_trimmed:
  assumes "xs \<noteq> []" "False \<notin> set env" "c \<in> set delim"
    and "\<forall>x\<in>set xs. set x \<inter> set delim = {} \<and> trim_spaces x \<noteq> []"
  shows "tokenize_to_strlist env list (join c xs) delim =
           Inr (list @ map (\<lambda>x. \<lparr>d = trim_spaces x, flags = 0\<rparr>) xs,
                map (\<lambda>x. \<lparr>d = trim_spaces x, flags = 0\<rparr>) xs)"
proof -
  have "tokenize_loop env (join c xs) delim [] =
     Some ([] @ map (\<lambda>x. \<lparr>d = trim_spaces x, flags = 0\<rparr>) xs)"
    using assms by (rule tokenize_loop_join)
  then show ?thesis using assms(1)
    by (simp add: tokenize_to_strlist_def)
qed

theorem tokenize_join_trimmed_witness:
  "tokenize_to_strlist [True] [] (join CHR '','' [''a'', '' b c '']) '',;'' =
     Inr ([\<lparr>d = ''a'', flags = 0\<rparr>, \<lparr>d = ''b c'', flags = 0\<rparr>],
          [\<lparr>d = ''a'', flags = 0\<rparr>, \<lparr>d = ''b c'', flags = 0\<rparr>])"
  using tokenize_join_trimmed [of "[''a'', '' b c '']" "[True]" "CHR '',''" "'',;''" "[]"]
  by (simp add: trim_spaces_def isspace_def)

text \<open>
  C9 as stated fails: the one-element list holding \<open>'' a''\<close> has no comma in its element,
  which is not empty after trimming, yet the token that comes back is \<open>''a''\<close>.
\<close>

theorem tokenize_join_counterexample:
  "set '' a'' \<inter> set '','' = {} \<and> trim_spaces '' a'' \<noteq> [] \<and>
   tokenize_to_strlist [] [] (join CHR '','' ['' a'']) '','' =
     Inr ([\<lparr>d = ''a'', flags = 0\<rparr>], [\<lparr>d = ''a'', flags = 0\<rparr>]) \<and>
   map d [\<lparr>d = ''a'', flags = 0\<rparr>] \<noteq> ['' a'']"
  by (simp add: tokenize_to_strlist_def tokenize_loop.simps do_append_to_strlist_def
      strlist_prev_last_def trim_spaces_def isspace_def)

text \<open>After the first round \<^verbatim>\<open>last\<close> points at the local variable, and the list that is
  returned never changes again.\<close>

lemma strlist_copy_loop_sl: "strlist_copy_loop list newlist Addr_sl = newlist"
  by (induction list) auto

lemma strlist_copy_take: "strlist_copy list = take 1 list"
  by (cases list) (auto simp: strlist_copy_def strlist_copy_loop_sl)

text \<open>
  C10 at a list of two nodes: \<^verbatim>\<open>strlist_copy\<close> returns a list of one node, the copy of
  the first; the second node is lost.
\<close>

theorem strlist_copy_two:
  "strlist_copy [\<lparr>d = ''a'', flags = 1\<rparr>, \<lparr>d = ''b'', flags = 2\<rparr>]
     = [\<lparr>d = ''a'', flags = 1\<rparr>]"
  by (simp add: strlist_copy_def)

section \<open>Properties of the close cache\<close>

lemma fd_cache_open_scan_skip:
  "\<forall>cc\<in>set pre. fp cc = GNUPG_INVALID_FD \<or> fname cc \<noteq> name \<Longrightarrow>
   fd_cache_open_scan (pre @ rest) w name =
     map_option (\<lambda>(f, rest', w'). (f, pre @ rest', w')) (fd_cache_open_scan rest w name)"
  by (induction pre) (auto simp: fd_cache_strcmp_def option.map_id split: option.splits)

text \<open>
  C6, as the code has it.  When the first live slot of the requested name holds a
  descriptor that cannot be rewound, \<^verbatim>\<open>fd_cache_open\<close> marks that slot, and no other,
  as free and returns \<^verbatim>\<open>GNUPG_INVALID_FD\<close>.  The operating system is left as it was:
  \<^verbatim>\<open>open\<close> is not called and the descriptor is not closed.
\<close>

theorem fd_cache_open_rewind_failure:
  assumes "\<forall>c\<in>set pre. fp c = GNUPG_INVALID_FD \<or> fname c \<noteq> name"
    and "fp cc \<noteq> GNUPG_INVALID_FD" "fname cc = name" "\<not> seekable (fds w (fp cc))"
  shows "fd_cache_open (pre @ cc # post) w name mode =
           (GNUPG_INVALID_FD, pre @ cc\<lparr>fp := GNUPG_INVALID_FD\<rparr> # post, w)"
  using assms
  by (simp add: fd_cache_open_def fd_cache_open_scan_skip fd_cache_strcmp_def sys_lseek_def)

theorem fd_cache_open_rewind_failure_witness:
  "fd_cache_open ([\<lparr>fp = 4, fname = ''y''\<rparr>] @ \<lparr>fp = 5, fname = ''x''\<rparr> # [])
      (os_example False) ''x'' ''rb'' =
     (GNUPG_INVALID_FD,
      [\<lparr>fp = 4, fname = ''y''\<rparr>] @ \<lparr>fp = 5, fname = ''x''\<rparr>\<lparr>fp := GNUPG_INVALID_FD\<rparr> # [],
      os_example False)"
  using fd_cache_open_rewind_failure
    [of "[\<lparr>fp = 4, fname = ''y''\<rparr>]" "''x''" "\<lparr>fp = 5, fname = ''x''\<rparr>" "os_example False"
        "[]" "''rb''"]
  by (simp add: GNUPG_INVALID_FD_def os_example_def fd_example_def)

text \<open>
  C6 as stated fails: with the file \<open>x\<close> cached on descriptor 5, which cannot be
  rewound, and an operating system whose \<^verbatim>\<open>open\<close> of \<open>x\<close> would yield descriptor 7,
  \<^verbatim>\<open>fd_cache_open\<close> returns \<open>-1\<close> and has not called \<^verbatim>\<open>open\<close>.
\<close>

theorem fd_cache_open_fallback_counterexample:
  "open_ret (os_example False) ''x'' = 7 \<and>
   fst (fd_cache_open [\<lparr>fp = 5, fname = ''x''\<rparr>] (os_example False) ''x'' ''rb'') = -1 \<and>
   open_log (snd (snd (fd_cache_open [\<lparr>fp = 5, fname = ''x''\<rparr>] (os_example False) ''x'' ''rb'')))
     = []"
  by (simp add: fd_cache_open_def fd_cache_strcmp_def sys_lseek_def GNUPG_INVALID_FD_def
      os_example_def fd_example_def)

section \<open>Properties of the block filter: reading\<close>

lemma shift_or_byte: "c < 256 \<Longrightarrow> push_bit 8 len OR c = len * 256 + (c::nat)"
proof -
  assume c: "c < 256"
  have "push_bit 8 len + c = push_bit 8 len OR c"
  proof (rule disjunctive_add)
    fix n
    show "\<not> bit (push_bit 8 len) n \<or> \<not> bit c n"
    proof (cases "n < 8")
      case True
      then show ?thesis by (simp add: bit_push_bit_iff)
    next
      case False
      then have "2 ^ 8 \<le> (2::nat) ^ n" by (intro power_increasing) auto
      with c have "c < 2 ^ n" by simp
      then have "\<not> bit c n" by (simp add: bit_iff_odd)
      then show ?thesis ..
    qed
  qed
  then show ?thesis by (simp add: push_bit_eq_mult mult.commute)
qed

lemma bf_get_len4_step:
  "iobuf_get G ch w = Some (int c, ch', w') \<Longrightarrow> c < 256 \<Longrightarrow>
   bf_get_len4 (Suc k) G ch w len = bf_get_len4 k G ch' w' (len * 256 + c)"
  by (simp add: shift_or_byte)

lemma bf_get_len4_all:
  assumes "iobuf_get G ch0 w0 = Some (int c1, ch1, w1)" "c1 < 256"
    and "iobuf_get G ch1 w1 = Some (int c2, ch2, w2)" "c2 < 256"
    and "iobuf_get G ch2 w2 = Some (int c3, ch3, w3)" "c3 < 256"
    and "iobuf_get G ch3 w3 = Some (int c4, ch4, w4)" "c4 < 256"
  shows "bf_get_len4 4 G ch0 w0 0 = Some (True, be32 c1 c2 c3 c4, ch4, w4)"
proof -
  have "(4::nat) = Suc (Suc (Suc (Suc 0)))" by simp
  then have "bf_get_len4 4 G ch0 w0 0 = bf_get_len4 (Suc (Suc (Suc (Suc 0)))) G ch0 w0 0"
    by (rule arg_cong)
  also have "\<dots> = bf_get_len4 (Suc (Suc (Suc 0))) G ch1 w1 (0 * 256 + c1)"
    using assms(1,2) by (rule bf_get_len4_step)
  also have "\<dots> = bf_get_len4 (Suc (Suc 0)) G ch2 w2 ((0 * 256 + c1) * 256 + c2)"
    using assms(3,4) by (rule bf_get_len4_step)
  also have "\<dots> = bf_get_len4 (Suc 0) G ch3 w3 (((0 * 256 + c1) * 256 + c2) * 256 + c3)"
    using assms(5,6) by (rule bf_get_len4_step)
  also have "\<dots> = bf_get_len4 0 G ch4 w4 ((((0 * 256 + c1) * 256 + c2) * 256 + c3) * 256 + c4)"
    using assms(7,8) by (rule bf_get_len4_step)
  also have "\<dots> = Some (True, be32 c1 c2 c3 c4, ch4, w4)"
    by (simp add: be32_def algebra_simps)
  finally show ?thesis .
qed

text \<open>
  C4.  Let the filter be in partial mode and let \<open>L\<close> be the first length octet of
  a segment.  For \<open>192 \<le> L < 224\<close> one more octet \<open>M\<close> is read, the segment length is
  \<open>((L - 192) << 8) + M + 192\<close> and the segment is the last (\<open>partial = 2\<close>).  For
  \<open>L = 255\<close> the length is the next four octets, big-endian, and the segment is the
  last; \<open>bf_final\<close> then ends the stream at once when that length is 0.  For
  \<open>224 \<le> L \<le> 254\<close> the length is \<open>1 << (L & 0x1F)\<close> and \<open>partial\<close> stays 1: more
  segments follow.
\<close>

theorem block_filter_length_decoding:
  assumes "partial a = 1"
    and "bf_first_octet G a chain w = Some (L, chA, wA)"
  shows
    "(192 \<le> L \<and> L < 224 \<and> iobuf_get G chA wA = Some (int M, chB, wB) \<longrightarrow>
        bf_get_length G a chain w n =
          Some (0, False,
                a\<lparr>first_c := 0, bf_size := push_bit 8 (nat (L - 192)) + M + 192, partial := 2\<rparr>,
                chB, wB))
     \<and> (L = 255 \<and> iobuf_get G chA wA = Some (int ca, chB, wB) \<and> ca < 256
          \<and> iobuf_get G chB wB = Some (int cb, chC, wC) \<and> cb < 256
          \<and> iobuf_get G chC wC = Some (int cc, chD, wD) \<and> cc < 256
          \<and> iobuf_get G chD wD = Some (int cd, chE, wE) \<and> cd < 256 \<longrightarrow>
        bf_get_length G a chain w n =
          bf_final (a\<lparr>first_c := 0, bf_size := be32 ca cb cc cd, partial := 2\<rparr>) n chE wE)
     \<and> (224 \<le> L \<and> L \<le> 254 \<longrightarrow>
        bf_get_length G a chain w n =
          Some (0, False, a\<lparr>first_c := 0, bf_size := push_bit (nat (L AND 0x1f)) 1\<rparr>, chA, wA)
        \<and> partial (a\<lparr>first_c := 0, bf_size := push_bit (nat (L AND 0x1f)) 1\<rparr>) = 1)"
proof (intro conjI impI)
  assume h: "192 \<le> L \<and> L < 224 \<and> iobuf_get G chA wA = Some (int M, chB, wB)"
  have a0: "(if first_c a \<noteq> 0 then a\<lparr>first_c := 0\<rparr> else a) = a\<lparr>first_c := 0\<rparr>" by simp
  show "bf_get_length G a chain w n =
          Some (0, False,
                a\<lparr>first_c := 0, bf_size := push_bit 8 (nat (L - 192)) + M + 192, partial := 2\<rparr>,
                chB, wB)"
    using assms h unfolding bf_get_length_def Let_def a0
    by (auto simp: bf_final_def bf_first_octet_def push_bit_eq_mult split: if_splits)
next
  assume h: "L = 255 \<and> iobuf_get G chA wA = Some (int ca, chB, wB) \<and> ca < 256
          \<and> iobuf_get G chB wB = Some (int cb, chC, wC) \<and> cb < 256
          \<and> iobuf_get G chC wC = Some (int cc, chD, wD) \<and> cc < 256
          \<and> iobuf_get G chD wD = Some (int cd, chE, wE) \<and> cd < 256"
  have a0: "(if first_c a \<noteq> 0 then a\<lparr>first_c := 0\<rparr> else a) = a\<lparr>first_c := 0\<rparr>" by simp
  have l4: "bf_get_len4 4 G chA wA 0 = Some (True, be32 ca cb cc cd, chE, wE)"
    using h by (intro bf_get_len4_all) auto
  show "bf_get_length G a chain w n =
          bf_final (a\<lparr>first_c := 0, bf_size := be32 ca cb cc cd, partial := 2\<rparr>) n chE wE"
    using assms h unfolding bf_get_length_def Let_def a0
    by (auto simp: l4 bf_first_octet_def split: if_splits)
next
  assume h: "224 \<le> L \<and> L \<le> 254"
  have a0: "(if first_c a \<noteq> 0 then a\<lparr>first_c := 0\<rparr> else a) = a\<lparr>first_c := 0\<rparr>" by simp
  show "bf_get_length G a chain w n =
          Some (0, False, a\<lparr>first_c := 0, bf_size := push_bit (nat (L AND 0x1f)) 1\<rparr>, chA, wA)"
    using assms h unfolding bf_get_length_def Let_def a0
    by (auto simp: bf_first_octet_def push_bit_eq_mult split: if_splits)
next
  show "partial (a\<lparr>first_c := 0, bf_size := push_bit (nat (L AND 0x1f)) 1\<rparr>) = 1"
    using assms(1) by simp
qed

lemma temp_example_get:
  "bs \<noteq> [] \<Longrightarrow> i \<le> length bs \<Longrightarrow>
   iobuf_get no_filters ((temp_example bs)\<lparr>d_start := i\<rparr> # []) world_example =
     (if i < length bs
      then Some (uint (bs ! i),
                 (temp_example bs)\<lparr>d_start := i + 1, nbytes := 1\<rparr> # [], world_example)
      else Some (-1, (temp_example bs)\<lparr>d_start := i\<rparr> # [], world_example))"
  by (auto simp: iobuf_get_def iobuf_readbyte_def temp_example_def iobuf_temp_with_content_def
      iobuf_alloc_def underflow_def underflow_target_def)

theorem block_filter_length_decoding_witness:
  "bf_get_length no_filters (bf_example 0xE9) [] world_example 0 =
     Some (0, False, (bf_example 0xE9)\<lparr>first_c := 0, bf_size := 512\<rparr>, [], world_example)
   \<and> bf_get_length no_filters (bf_example 0xC8) [temp_example [5]] world_example 0 =
     Some (0, False, (bf_example 0xC8)\<lparr>first_c := 0, bf_size := 2245, partial := 2\<rparr>,
           [(temp_example [5])\<lparr>d_start := 1, nbytes := 1\<rparr>], world_example)"
proof -
  have 1: "bf_first_octet no_filters (bf_example 0xE9) [] world_example
             = Some (0xE9, [], world_example)"
    by (simp add: bf_first_octet_def bf_example_def)
  have 2: "bf_first_octet no_filters (bf_example 0xC8) [temp_example [5]] world_example
             = Some (0xC8, [temp_example [5]], world_example)"
    by (simp add: bf_first_octet_def bf_example_def)
  have g: "iobuf_get no_filters [temp_example [5]] world_example
             = Some (int 5, [(temp_example [5])\<lparr>d_start := 1, nbytes := 1\<rparr>], world_example)"
    using temp_example_get [of "[5]" 0]
    by (simp add: temp_example_def iobuf_temp_with_content_def iobuf_alloc_def)
  have p: "partial (bf_example 0xE9) = 1" "partial (bf_example 0xC8) = 1"
    by (simp_all add: bf_example_def)
  from block_filter_length_decoding [OF p(1) 1, where n = 0]
  have a: "bf_get_length no_filters (bf_example 0xE9) [] world_example 0 =
     Some (0, False, (bf_example 0xE9)\<lparr>first_c := 0, bf_size := 512\<rparr>, [], world_example)"
    by simp
  from block_filter_length_decoding [OF p(2) 2, where n = 0 and M = 5
      and chB = "[(temp_example [5])\<lparr>d_start := 1, nbytes := 1\<rparr>]" and wB = world_example] g
  have b: "bf_get_length no_filters (bf_example 0xC8) [temp_example [5]] world_example 0 =
     Some (0, False, (bf_example 0xC8)\<lparr>first_c := 0, bf_size := 2245, partial := 2\<rparr>,
           [(temp_example [5])\<lparr>d_start := 1, nbytes := 1\<rparr>], world_example)"
    by simp
  from a b show ?thesis by simp
qed

section \<open>Properties of underflow\<close>

lemma uf_len_compact_pos: "0 < d_size a \<Longrightarrow> d_start a = d_len a \<Longrightarrow> 0 < uf_len (compact a)"
  by (simp add: uf_len_def compact_def Let_def IOBUF_ZEROCOPY_THRESHOLD_SIZE_def)

text \<open>
  C8.  Let \<open>a\<close> be an input node whose internal buffer holds no unread byte (and has
  a positive size, as every node has), with a filter, no pending EOF and no error,
  and let the caller have set an external buffer of at least 1024 bytes.  Then the
  filter is called for as many bytes as the external buffer takes, and whatever it
  answers, the bytes it delivers are in the external buffer, \<^verbatim>\<open>e_d.used\<close> is their
  number, and the internal buffer is as the compaction at the start of the underflow
  left it: nothing is stored in it.  When the filter answers with success and at
  least one byte, \<^verbatim>\<open>underflow_target\<close> returns 0 with exactly that node.
\<close>

theorem underflow_zero_copy:
  assumes "use a = IOBUF_INPUT" "d_start a = d_len a" "0 < d_size a"
    and "filter a \<noteq> None" "\<not> filter_eof a" "error a = 0"
    and "e_d_buf a \<noteq> None" "IOBUF_ZEROCOPY_THRESHOLD_SIZE \<le> e_d_len a"
    and "call_filter F (compact (a\<lparr>e_d_used := 0\<rparr>)) IOBUFCTRL_UNDERFLOW chain w [] (e_d_len a)
           = Some (rc, out, len, ov, chain', w')"
  shows "uf_fill F (compact (a\<lparr>e_d_used := 0\<rparr>)) chain w =
           Some (rc, (compact (a\<lparr>e_d_used := 0\<rparr>))
                       \<lparr>filter_ov := ov, e_d_buf := Some (take len out), e_d_used := len\<rparr>,
                 chain', w')
         \<and> d_buf ((compact (a\<lparr>e_d_used := 0\<rparr>))
                       \<lparr>filter_ov := ov, e_d_buf := Some (take len out), e_d_used := len\<rparr>) = []
         \<and> (rc = 0 \<and> 0 < len \<longrightarrow>
              underflow_target F a chain w clear target =
                Some (0, (compact (a\<lparr>e_d_used := 0\<rparr>))
                           \<lparr>filter_ov := ov, e_d_buf := Some (take len out), e_d_used := len\<rparr>,
                      chain', w'))"
proof -
  let ?a = "compact (a\<lparr>e_d_used := 0\<rparr>)"
  have pos: "0 < uf_len ?a"
    using assms(2,3) uf_len_compact_pos [of "a\<lparr>e_d_used := 0\<rparr>"] by simp
  have emp: "d_buf ?a = []" using assms(2) by (simp add: compact_def)
  have fill: "uf_fill F ?a chain w =
           Some (rc, ?a\<lparr>filter_ov := ov, e_d_buf := Some (take len out), e_d_used := len\<rparr>,
                 chain', w')"
    using pos emp assms(7,8,9) by (simp add: uf_fill_def compact_def)
  have ut: "underflow_target F a chain w clear target =
                Some (0, ?a\<lparr>filter_ov := ov, e_d_buf := Some (take len out), e_d_used := len\<rparr>,
                      chain', w')" if "rc = 0" "0 < len"
    using that assms(1,2,4,5,6) fill emp
    unfolding underflow_target_def Let_def
    by (simp add: compact_def uf_return_def)
  from fill emp ut show ?thesis by simp
qed

lemma file_example_open:
  "iobuf_open world_example (Some ''x'') = Some (Some file_example, world_opened)"
  by (simp add: file_example_def world_opened_def iobuf_open_def do_open_def Let_def
      fd_cache_open_def direct_open_def sys_open_def world_example_def os_example_def
      iobuf_alloc_def GNUPG_INVALID_FD_def iobuf_buffer_size_def
      DEFAULT_IOBUF_BUFFER_SIZE_def)

lemma read_more_example:
  "\<exists>s'. read_more (sys world_opened) 7 1024 [] = (Ret 0, [1, 2, 3], s')"
  by (simp add: read_more.simps [of _ _ _ "[]"] read_more.simps [of _ _ _ "[1, 2, 3]"]
      sys_read_def rd_count_def rd_limit_def Let_def
      world_opened_def iobuf_open_def do_open_def fd_cache_open_def direct_open_def
      sys_open_def world_example_def os_example_def fd_example_def iobuf_alloc_def
      GNUPG_INVALID_FD_def iobuf_buffer_size_def DEFAULT_IOBUF_BUFFER_SIZE_def)

theorem underflow_zero_copy_witness:
  "e_d_used (fst (snd (the (underflow_target (run_filter no_filters 0)
       (file_example\<lparr>e_d_buf := Some [], e_d_len := 1024\<rparr>) [] world_opened True 1)))) = 3
   \<and> e_d_buf (fst (snd (the (underflow_target (run_filter no_filters 0)
       (file_example\<lparr>e_d_buf := Some [], e_d_len := 1024\<rparr>) [] world_opened True 1))))
       = Some [1, 2, 3]
   \<and> d_buf (fst (snd (the (underflow_target (run_filter no_filters 0)
       (file_example\<lparr>e_d_buf := Some [], e_d_len := 1024\<rparr>) [] world_opened True 1)))) = []"
proof -
  let ?a = "file_example\<lparr>e_d_buf := Some [], e_d_len := 1024\<rparr>"
  have fe: "use file_example = IOBUF_INPUT" "d_start file_example = 0"
    "d_buf file_example = []" "d_size file_example = iobuf_buffer_size"
    "filter file_example = Some File_filter" "\<not> filter_eof file_example"
    "error file_example = 0"
    "filter_ov file_example = Some (File_ctx (file_ctx_init 7 False ''x''))"
    by (simp_all add: file_example_def iobuf_open_def do_open_def Let_def
      fd_cache_open_def direct_open_def sys_open_def world_example_def os_example_def
      iobuf_alloc_def GNUPG_INVALID_FD_def iobuf_buffer_size_def
      DEFAULT_IOBUF_BUFFER_SIZE_def)
  obtain s' where rm: "read_more (sys world_opened) 7 1024 [] = (Ret 0, [1, 2, 3], s')"
    using read_more_example by blast
  have "\<exists>ov w'. call_filter (run_filter no_filters 0) (compact (?a\<lparr>e_d_used := 0\<rparr>))
           IOBUFCTRL_UNDERFLOW [] world_opened [] (e_d_len ?a) = Some (0, [1, 2, 3], 3, ov, [], w')"
    by (simp add: call_filter_def compact_def fe dispatch_def file_filter_def file_ctx_init_def
        rm)
  then obtain ov w' where c:
    "call_filter (run_filter no_filters 0) (compact (?a\<lparr>e_d_used := 0\<rparr>))
           IOBUFCTRL_UNDERFLOW [] world_opened [] (e_d_len ?a) = Some (0, [1, 2, 3], 3, ov, [], w')"
    by blast
  have "underflow_target (run_filter no_filters 0) ?a [] world_opened True 1 =
          Some (0, (compact (?a\<lparr>e_d_used := 0\<rparr>))
                     \<lparr>filter_ov := ov, e_d_buf := Some (take 3 [1, 2, 3]), e_d_used := 3\<rparr>,
                [], w')"
    using underflow_zero_copy [of ?a "run_filter no_filters 0" "[]" world_opened 0 "[1, 2, 3]" 3
        ov "[]" w' True 1] c
    by (simp add: fe iobuf_buffer_size_def DEFAULT_IOBUF_BUFFER_SIZE_def
        IOBUF_ZEROCOPY_THRESHOLD_SIZE_def)
  then show ?thesis by (simp add: compact_def fe)
qed

section \<open>Properties of push\<close>

lemma filter_flush_addr:
  assumes "filter_flush F a chain w = Some (rc, a', chain', w')"
  shows "addr a' = addr a"
  using assms unfolding filter_flush_def Let_def
  by (auto split: if_splits option.splits prod.splits)

lemma push_head_fields:
  "addr (push_head a f ov rel_ov) = addr a"
  "filter (push_head a f ov rel_ov) = f"
  "filter_ov (push_head a f ov rel_ov) = ov"
  "d_buf (push_head a f ov rel_ov) = []"
  "d_start (push_head a f ov rel_ov) = 0"
  "subno (push_head a f ov rel_ov) = subno a + 1"
  by (simp_all add: push_head_def Let_def)

text \<open>
  C1.  Let the push take place: the flush of an output head (\<open>a1\<close>, \<open>chain1\<close> and \<open>w1\<close>
  are the pipeline and the world after it; they are the given ones when the head is
  not an output node) succeeds and the nesting is below the limit.  Let every node
  lie at an address that \<^verbatim>\<open>malloc\<close> has handed out, and let the \<^verbatim>\<open>IOBUFCTRL_INIT\<close> call
  of the new filter leave the chain alone.  Then the head of the pipeline after the
  push is at the address of the head before it, and runs the new filter with the new
  context (as its initialisation left it); its chain starts with a node at a fresh
  address that no node of the pipeline had, and that node holds every member of the
  old head; the rest of the chain is as it was.
\<close>

theorem push_preserves_head:
  assumes flush: "(if use a = IOBUF_OUTPUT then filter_flush F a chain w
                   else Some (0, a, chain, w)) = Some (0, a1, chain1, w1)"
    and depth: "subno a1 < MAX_NESTING_FILTER"
    and alloc: "\<forall>x\<in>set (a1 # chain1). addr x < brk w1"
    and init: "f \<noteq> None \<longrightarrow>
               call_filter F (push_head a1 f ov rel_ov) IOBUFCTRL_INIT
                 (push_shadow a1 w1 # chain1) (w1\<lparr>brk := brk w1 + 1\<rparr>) [] 0
               = Some (rc, out, len, ov', push_shadow a1 w1 # chain1, w')"
    and noinit: "f = None \<longrightarrow> rc = 0 \<and> ov' = ov \<and> w' = w1\<lparr>brk := brk w1 + 1\<rparr>"
  shows "\<exists>a' b. iobuf_push_filter2 F a chain w f ov rel_ov = Some (rc, a', b # chain1, w')
           \<and> addr a' = addr a \<and> filter a' = f \<and> filter_ov a' = ov'
           \<and> b = a1\<lparr>addr := brk w1\<rparr>
           \<and> addr b \<notin> addr ` set (a1 # chain1)"
proof -
  have ad: "addr a1 = addr a"
    using flush filter_flush_addr [of F a chain w 0 a1 chain1 w1]
    by (auto split: if_splits)
  have fresh: "brk w1 \<notin> addr ` set (a1 # chain1)"
    using alloc by auto
  have nd: "\<not> MAX_NESTING_FILTER \<le> subno a1" using depth by simp
  show ?thesis
  proof (cases "f = None")
    case True
    then have "iobuf_push_filter2 F a chain w f ov rel_ov =
        Some (rc, push_head a1 f ov rel_ov, push_shadow a1 w1 # chain1, w')"
      using flush nd noinit
      by (simp add: iobuf_push_filter2_def Let_def push_head_fields)
    then show ?thesis using ad fresh True noinit
      by (simp add: push_head_fields push_shadow_def)
  next
    case False
    then have "iobuf_push_filter2 F a chain w f ov rel_ov =
        Some (rc, (push_head a1 f ov rel_ov)\<lparr>filter_ov := ov'\<rparr>, push_shadow a1 w1 # chain1, w')"
      using flush nd init
      by (simp add: iobuf_push_filter2_def Let_def push_head_fields)
    then show ?thesis using ad fresh
      by (simp add: push_head_fields push_shadow_def)
  qed
qed

text \<open>The push of a block filter onto the input pipeline made of the bytes 1, 2:
  the head stays at address 0, and the old head is now at address 1.\<close>

theorem push_preserves_head_witness:
  "\<exists>a' b w'. iobuf_push_filter2 (run_filter no_filters 0) (temp_example [1, 2]) []
        (world_temp [1, 2]) (Some Block_filter) (Some (Block_ctx (bf_example 0xE9))) False
      = Some (0, a', b # [], w')
     \<and> addr a' = addr (temp_example [1, 2]) \<and> filter a' = Some Block_filter
     \<and> b = (temp_example [1, 2])\<lparr>addr := brk (world_temp [1, 2])\<rparr>
     \<and> addr b \<notin> addr ` set (temp_example [1, 2] # [])"
proof -
  have t: "use (temp_example [1, 2]) = IOBUF_INPUT_TEMP" "subno (temp_example [1, 2]) = 0"
    "addr (temp_example [1, 2]) = 0" "brk (world_temp [1, 2]) = 1"
    by (simp_all add: temp_example_def world_temp_def iobuf_temp_with_content_def
        iobuf_alloc_def world_example_def)
  have i: "call_filter (run_filter no_filters 0)
             (push_head (temp_example [1, 2]) (Some Block_filter)
                (Some (Block_ctx (bf_example 0xE9))) False) IOBUFCTRL_INIT
             (push_shadow (temp_example [1, 2]) (world_temp [1, 2]) # [])
             ((world_temp [1, 2])\<lparr>brk := brk (world_temp [1, 2]) + 1\<rparr>) [] 0
           = Some (0, [], 0, Some (Block_ctx (bf_example 0xE9)),
                   push_shadow (temp_example [1, 2]) (world_temp [1, 2]) # [],
                   (world_temp [1, 2])\<lparr>brk := brk (world_temp [1, 2]) + 1\<rparr>)"
    by (simp add: call_filter_def push_head_fields dispatch_def block_filter_def
        bf_example_def)
  from push_preserves_head [of "temp_example [1, 2]" "run_filter no_filters 0" "[]"
      "world_temp [1, 2]" "temp_example [1, 2]" "[]" "world_temp [1, 2]" "Some Block_filter"
      "Some (Block_ctx (bf_example 0xE9))" False 0 "[]" 0 "Some (Block_ctx (bf_example 0xE9))"
      "(world_temp [1, 2])\<lparr>brk := brk (world_temp [1, 2]) + 1\<rparr>"] i t
  show ?thesis
    by (simp add: MAX_NESTING_FILTER_def) blast
qed

end
